theory Spec2Isabelle
  imports Complex_Main
begin

section \<open>Python values\<close>

text \<open>
  The payloads of \<^verbatim>\<open>src/utils/journal.py\<close> are JSON-shaped Python objects
  (\<^verbatim>\<open>Dict[str, Any]\<close>). A dictionary is an association list in insertion order, read
  with \<open>map_of\<close> (the keys of a Python dictionary are distinct). \<open>JNull\<close> is
  \<^verbatim>\<open>None\<close>; a finite float is the rational number it denotes.
\<close>

datatype json =
    JNull
  | JBool bool
  | JInt int
  | JFloat rat
  | JStr string
  | JList "json list"
  | JDict "(string \<times> json) list"

type_synonym pydict = "(string \<times> json) list"

text \<open>Truth value of an object in a condition (\<^verbatim>\<open>if x:\<close>).\<close>

fun truthy :: "json \<Rightarrow> bool" where
  "truthy JNull = False"
| "truthy (JBool b) = b"
| "truthy (JInt i) = (i \<noteq> 0)"
| "truthy (JFloat r) = (r \<noteq> 0)"
| "truthy (JStr s) = (s \<noteq> [])"
| "truthy (JList xs) = (xs \<noteq> [])"
| "truthy (JDict kvs) = (kvs \<noteq> [])"

text \<open>\<^verbatim>\<open>d.get(k)\<close>: the value, or \<^verbatim>\<open>None\<close>.\<close>

definition dict_get :: "pydict \<Rightarrow> string \<Rightarrow> json" where
  "dict_get d k = (case map_of d k of None \<Rightarrow> JNull | Some v \<Rightarrow> v)"

text \<open>
  The location and kind of one line of a pydantic \<^verbatim>\<open>ValidationError\<close>.
  \<open>BoolInvalid\<close> stands for both \<^verbatim>\<open>bool_type\<close> and \<^verbatim>\<open>bool_parsing\<close>;
  \<open>ValueErrorLine msg\<close> is a \<^verbatim>\<open>ValueError(msg)\<close> raised by a field validator.
\<close>

datatype field_error =
    Missing
  | StringType
  | BoolInvalid
  | DictType
  | ValueErrorLine string

text \<open>
  The exceptions (subclasses of \<^verbatim>\<open>Exception\<close>) that the module can meet.
  \<open>ValueError prefix v\<close> is \<^verbatim>\<open>ValueError(f"prefix{v}")\<close>: the literal part of the message
  and the interpolated object. \<open>ValidationError\<close> and \<open>PydanticSerializationError\<close>
  are pydantic's, subclasses of \<^verbatim>\<open>ValueError\<close>. \<open>RequestException\<close> is \<^verbatim>\<open>requests.RequestException\<close> (with
  \<^verbatim>\<open>HTTPError\<close>, raised by \<^verbatim>\<open>raise_for_status\<close>), \<open>OtherException\<close> any further
  exception raised by a collaborator.
\<close>

datatype error =
    AttributeError
  | TypeError
  | KeyError string
  | IndexError
  | OverflowError
  | OSError
  | ValueError string json
  | ValidationError "(string list \<times> field_error) list"
  | PydanticSerializationError
  | RequestException
  | OtherException string

fun is_ValueError :: "error \<Rightarrow> bool" where
  "is_ValueError (ValueError _ _) = True"
| "is_ValueError (ValidationError _) = True"
| "is_ValueError PydanticSerializationError = True"
| "is_ValueError _ = False"

fun is_TypeError :: "error \<Rightarrow> bool" where
  "is_TypeError TypeError = True"
| "is_TypeError _ = False"

text \<open>
  Iterating an object (\<^verbatim>\<open>for x in obj\<close>, \<^verbatim>\<open>enumerate(obj)\<close>): a list gives
  its items, a string its characters, a dictionary its keys; anything else raises
  \<^verbatim>\<open>TypeError\<close>.
\<close>

fun py_iter :: "json \<Rightarrow> error + json list" where
  "py_iter (JList xs) = Inr xs"
| "py_iter (JStr s) = Inr (map (\<lambda>c. JStr [c]) s)"
| "py_iter (JDict kvs) = Inr (map (\<lambda>kv. JStr (fst kv)) kvs)"
| "py_iter _ = Inl TypeError"

subsection \<open>Strings\<close>

text \<open>\<^verbatim>\<open>s.replace(c, new)\<close> for a one-character pattern: every occurrence is replaced.\<close>

definition str_replace :: "char \<Rightarrow> string \<Rightarrow> string \<Rightarrow> string" where
  "str_replace c new s = concat (map (\<lambda>x. if x = c then new else [x]) s)"

text \<open>\<^verbatim>\<open>s.split(c)\<close>: never empty; \<^verbatim>\<open>s.split(c)[-1]\<close> is its last item.\<close>

fun str_split :: "char \<Rightarrow> string \<Rightarrow> string list" where
  "str_split c [] = [[]]"
| "str_split c (x # xs) =
     (if x = c then [] # str_split c xs
      else (case str_split c xs of
              [] \<Rightarrow> [[x]]
            | h # t \<Rightarrow> (x # h) # t))"

definition backslash :: char where
  "backslash = char_of (92 :: nat)"

subsection \<open>\<^verbatim>\<open>collections.deque(maxlen=n)\<close>\<close>

text \<open>
  A bounded deque carries its \<^verbatim>\<open>maxlen\<close>. The constructor first converts
  \<^verbatim>\<open>maxlen\<close> to a signed 64-bit size (\<^verbatim>\<open>OverflowError\<close> outside its range) and
  then refuses a negative one. \<^verbatim>\<open>append\<close> adds on the right and, when the deque has
  then more than \<^verbatim>\<open>maxlen\<close> items, drops the leftmost one.
\<close>

record 'a deque =
  items :: "'a list"
  maxlen :: nat

definition deque_new :: "int \<Rightarrow> error + 'a deque" where
  "deque_new n =
     (if n < - (2 ^ 63) \<or> 2 ^ 63 - 1 < n then Inl OverflowError
      else if n < 0 then Inl (ValueError ''maxlen must be non-negative'' (JStr []))
      else Inr \<lparr>items = [], maxlen = nat n\<rparr>)"

definition deque_append :: "'a deque \<Rightarrow> 'a \<Rightarrow> 'a deque" where
  "deque_append q x =
     (let ys = items q @ [x]
      in q\<lparr>items := (if maxlen q < length ys then tl ys else ys)\<rparr>)"


section \<open>Timestamps\<close>

text \<open>
  A \<^verbatim>\<open>datetime\<close> object. \<open>utcoffset\<close> is \<open>None\<close> for a naive datetime and
  \<open>Some k\<close> for an aware one, \<open>k\<close> the offset from UTC in microseconds.
\<close>

record datetime =
  year :: nat
  month :: nat
  day :: nat
  hour :: nat
  minute :: nat
  second :: nat
  microsecond :: nat
  utcoffset :: "int option"

definition is_leap :: "nat \<Rightarrow> bool" where
  "is_leap y = (y mod 4 = 0 \<and> (y mod 100 \<noteq> 0 \<or> y mod 400 = 0))"

definition days_in_month :: "nat \<Rightarrow> nat \<Rightarrow> nat" where
  "days_in_month y m =
     (if m = 2 then (if is_leap y then 29 else 28)
      else if m = 4 \<or> m = 6 \<or> m = 9 \<or> m = 11 then 30
      else 31)"

text \<open>The ranges that the \<^verbatim>\<open>datetime\<close> constructor enforces.\<close>

definition valid_datetime :: "datetime \<Rightarrow> bool" where
  "valid_datetime d =
     (1 \<le> year d \<and> year d \<le> 9999 \<and> 1 \<le> month d \<and> month d \<le> 12 \<and>
      1 \<le> day d \<and> day d \<le> days_in_month (year d) (month d) \<and>
      hour d < 24 \<and> minute d < 60 \<and> second d < 60 \<and> microsecond d < 1000000 \<and>
      (case utcoffset d of
         None \<Rightarrow> True
       | Some k \<Rightarrow> - 86400000000 < k \<and> k < 86400000000))"

subsection \<open>Decimal fields\<close>

definition digit_val :: "char \<Rightarrow> nat option" where
  "digit_val c =
     (let n = (of_char c :: nat) in if 48 \<le> n \<and> n \<le> 57 then Some (n - 48) else None)"

definition digits_step :: "char \<Rightarrow> nat option \<Rightarrow> nat option" where
  "digits_step c acc =
     (case acc of
        None \<Rightarrow> None
      | Some a \<Rightarrow> (case digit_val c of None \<Rightarrow> None | Some v \<Rightarrow> Some (10 * a + v)))"

text \<open>The number written by a non-empty string of ASCII digits.\<close>

definition digits_val :: "string \<Rightarrow> nat option" where
  "digits_val s = (if s = [] then None else fold digits_step s (Some 0))"

definition digit_char :: "nat \<Rightarrow> char" where
  "digit_char n = char_of (48 + n mod 10)"

text \<open>
  \<^verbatim>\<open>%02d\<close>, \<^verbatim>\<open>%04d\<close> and \<^verbatim>\<open>%06d\<close> on a field of a datetime, which is in the
  range that makes the output exactly that wide.
\<close>

definition digits2 :: "nat \<Rightarrow> string" where
  "digits2 n = [digit_char (n div 10), digit_char n]"

definition digits4 :: "nat \<Rightarrow> string" where
  "digits4 n = [digit_char (n div 1000), digit_char (n div 100), digit_char (n div 10),
                digit_char n]"

definition digits6 :: "nat \<Rightarrow> string" where
  "digits6 n = [digit_char (n div 100000), digit_char (n div 10000), digit_char (n div 1000),
                digit_char (n div 100), digit_char (n div 10), digit_char n]"

subsection \<open>\<^verbatim>\<open>datetime.fromisoformat\<close> and \<^verbatim>\<open>datetime.isoformat\<close>\<close>

text \<open>
  \<^verbatim>\<open>datetime.fromisoformat\<close> is library code whose grammar grew between interpreter
  versions. Every version reads the strings
  \<^verbatim>\<open>YYYY-MM-DDTHH:MM:SS[.fff[fff]][+HH:MM]\<close> (the ones \<^verbatim>\<open>isoformat\<close> writes) in
  the same way: it builds the datetime with these fields, and raises \<^verbatim>\<open>ValueError\<close>
  when the constructor refuses a field. \<open>parse_core\<close> is that common part. A string of
  another shape (or of this shape with hour 24 or an offset field out of range) is left
  to the interpreter at hand, the parameter \<open>ext\<close> of \<open>fromisoformat\<close>. \<open>None\<close> is
  \<^verbatim>\<open>ValueError\<close>.
\<close>

datatype iso_core = NotCore | OutOfRange | Parsed datetime

definition is_sign :: "char \<Rightarrow> bool" where
  "is_sign c = (c = CHR ''+'' \<or> c = CHR ''-'')"

definition parse_frac :: "string \<Rightarrow> nat option" where
  "parse_frac s =
     (case s of
        [] \<Rightarrow> Some 0
      | c # ds \<Rightarrow>
          if c = CHR ''.'' \<and> length ds = 3 then map_option (\<lambda>n. n * 1000) (digits_val ds)
          else if c = CHR ''.'' \<and> length ds = 6 then digits_val ds
          else None)"

definition parse_tz :: "string \<Rightarrow> int option option" where
  "parse_tz s =
     (if s = [] then Some None
      else if length s = 6 \<and> is_sign (s ! 0) \<and> s ! 3 = CHR '':'' then
        (case (digits_val (take 2 (drop 1 s)), digits_val (drop 4 s)) of
           (Some hh, Some mm) \<Rightarrow>
             if hh < 24 \<and> mm < 60 then
               Some (Some ((if s ! 0 = CHR ''-'' then - 1 else 1) *
                           (int (hh * 60 + mm) * 60000000)))
             else None
         | _ \<Rightarrow> None)
      else None)"

definition parse_core :: "string \<Rightarrow> iso_core" where
  "parse_core s =
     (if length s < 19 \<or> s ! 4 \<noteq> CHR ''-'' \<or> s ! 7 \<noteq> CHR ''-'' \<or> s ! 10 \<noteq> CHR ''T'' \<or>
         s ! 13 \<noteq> CHR '':'' \<or> s ! 16 \<noteq> CHR '':'' then NotCore
      else
        (case (digits_val (take 4 s), digits_val (take 2 (drop 5 s)),
               digits_val (take 2 (drop 8 s)), digits_val (take 2 (drop 11 s)),
               digits_val (take 2 (drop 14 s)), digits_val (take 2 (drop 17 s)),
               parse_frac (takeWhile (\<lambda>c. \<not> is_sign c) (drop 19 s)),
               parse_tz (dropWhile (\<lambda>c. \<not> is_sign c) (drop 19 s))) of
           (Some y, Some mo, Some d, Some h, Some mi, Some sec, Some us, Some off) \<Rightarrow>
             if y = 0 \<or> 9999 < y \<or> mo = 0 \<or> 12 < mo \<or> d = 0 \<or> days_in_month y mo < d \<or>
                24 < h \<or> 59 < mi \<or> 59 < sec then OutOfRange
             else if h = 24 then NotCore
             else Parsed \<lparr>year = y, month = mo, day = d, hour = h, minute = mi, second = sec,
                          microsecond = us, utcoffset = off\<rparr>
         | _ \<Rightarrow> NotCore))"

definition fromisoformat :: "(string \<Rightarrow> datetime option) \<Rightarrow> string \<Rightarrow> datetime option" where
  "fromisoformat ext s =
     (case parse_core s of
        Parsed d \<Rightarrow> Some d
      | OutOfRange \<Rightarrow> None
      | NotCore \<Rightarrow> ext s)"

definition format_offset :: "int \<Rightarrow> string" where
  "format_offset off =
     (let a = nat \<bar>off\<bar>;
          hh = a div 3600000000;
          mm = (a mod 3600000000) div 60000000;
          ss = a mod 60000000
      in [if off < 0 then CHR ''-'' else CHR ''+''] @ digits2 hh @ '':'' @ digits2 mm @
         (if ss \<noteq> 0 then
            '':'' @ digits2 (ss div 1000000) @
            (if ss mod 1000000 \<noteq> 0 then ''.'' @ digits6 (ss mod 1000000) else [])
          else []))"

definition isoformat :: "datetime \<Rightarrow> string" where
  "isoformat d =
     digits4 (year d) @ ''-'' @ digits2 (month d) @ ''-'' @ digits2 (day d) @ ''T'' @
     digits2 (hour d) @ '':'' @ digits2 (minute d) @ '':'' @ digits2 (second d) @
     (if microsecond d \<noteq> 0 then ''.'' @ digits6 (microsecond d) else []) @
     (case utcoffset d of None \<Rightarrow> [] | Some off \<Rightarrow> format_offset off)"


section \<open>The entry model\<close>

text \<open>\<^verbatim>\<open>Entry\<close> and its subclasses; the class of an object is its \<open>cls\<close>.\<close>

datatype entry_class =
    Entry
  | VisionEntry
  | MagicCamEntry
  | AiGeneratedImageEntry
  | NoteEntry
  | ConversationEntry
  | SearchEntry
  | SearchMemoryEntry

record entry =
  cls :: entry_class
  id' :: string
  userId :: string
  createdOn :: datetime
  modifiedOn :: datetime
  archived :: bool
  type' :: string
  title :: string
  data :: pydict
  utterance :: "(string \<times> string) list"

text \<open>
  What the interpreter and the libraries supply to one call: the strings of
  \<^verbatim>\<open>uuid.uuid4()\<close> and \<^verbatim>\<open>uuid.uuid1()\<close>, the two readings of
  \<^verbatim>\<open>datetime.now(timezone.utc)\<close> in \<^verbatim>\<open>_create_basic_entry\<close>, the part of
  \<^verbatim>\<open>fromisoformat\<close> that depends on the interpreter, and the exception that
  \<^verbatim>\<open>entry.model_dump_json()\<close> raises, if pydantic's serializer raises one for the
  entry (a \<^verbatim>\<open>PydanticSerializationError\<close>, as for a \<^verbatim>\<open>data\<close> nested too deep); the
  text it returns otherwise goes to the log only.
\<close>

record runtime =
  uuid4 :: string
  uuid1 :: string
  now1 :: datetime
  now2 :: datetime
  fromisoformat_ext :: "string \<Rightarrow> datetime option"
  model_dump_json_raises :: "entry \<Rightarrow> error option"

text \<open>
  \<^verbatim>\<open>Entry.convert_to_datetime\<close>, the \<^verbatim>\<open>mode='before'\<close> validator of
  \<^verbatim>\<open>createdOn\<close> and \<^verbatim>\<open>modifiedOn\<close>. An object that is not a string has no
  \<^verbatim>\<open>replace\<close>: \<^verbatim>\<open>AttributeError\<close>, which the \<^verbatim>\<open>except ValueError\<close> lets through.
\<close>

definition convert_to_datetime :: "(string \<Rightarrow> datetime option) \<Rightarrow> json \<Rightarrow> error + datetime" where
  "convert_to_datetime ext v =
     (case v of
        JStr s \<Rightarrow>
          (case fromisoformat ext (str_replace CHR ''Z'' ''+00:00'' s) of
             Some d \<Rightarrow> Inr d
           | None \<Rightarrow> Inl (ValueError ''Invalid date format: '' (JStr s)))
      | _ \<Rightarrow> Inl AttributeError)"

subsection \<open>Validation of the fields (pydantic, lax mode)\<close>

text \<open>
  The outcome of one field: a value, lines for the \<^verbatim>\<open>ValidationError\<close>, or an
  exception that is neither \<^verbatim>\<open>ValueError\<close> nor \<^verbatim>\<open>AssertionError\<close>, which pydantic
  does not collect: it leaves the constructor at once.
\<close>

datatype 'a vres =
    Valid 'a
  | Invalid "(string list \<times> field_error) list"
  | Abort error

fun abort_of :: "'a vres \<Rightarrow> error option" where
  "abort_of (Abort e) = Some e"
| "abort_of _ = None"

fun lines_of :: "'a vres \<Rightarrow> (string list \<times> field_error) list" where
  "lines_of (Invalid ls) = ls"
| "lines_of _ = []"

definition validate_str :: "string \<Rightarrow> json option \<Rightarrow> string vres" where
  "validate_str name v =
     (case v of
        None \<Rightarrow> Invalid [([name], Missing)]
      | Some (JStr s) \<Rightarrow> Valid s
      | Some _ \<Rightarrow> Invalid [([name], StringType)])"

definition ascii_lower :: "char \<Rightarrow> char" where
  "ascii_lower c =
     (let n = (of_char c :: nat) in if 65 \<le> n \<and> n \<le> 90 then char_of (n + 32) else c)"

definition str_as_bool :: "string \<Rightarrow> bool option" where
  "str_as_bool s =
     (let l = map ascii_lower s
      in if l \<in> set [''0'', ''off'', ''f'', ''false'', ''n'', ''no''] then Some False
         else if l \<in> set [''1'', ''on'', ''t'', ''true'', ''y'', ''yes''] then Some True
         else None)"

definition validate_bool :: "string \<Rightarrow> json option \<Rightarrow> bool vres" where
  "validate_bool name v =
     (case v of
        None \<Rightarrow> Invalid [([name], Missing)]
      | Some (JBool b) \<Rightarrow> Valid b
      | Some (JInt i) \<Rightarrow>
          if i = 0 then Valid False else if i = 1 then Valid True
          else Invalid [([name], BoolInvalid)]
      | Some (JFloat r) \<Rightarrow>
          if r = 0 then Valid False else if r = 1 then Valid True
          else Invalid [([name], BoolInvalid)]
      | Some (JStr s) \<Rightarrow>
          (case str_as_bool s of
             Some b \<Rightarrow> Valid b
           | None \<Rightarrow> Invalid [([name], BoolInvalid)])
      | Some _ \<Rightarrow> Invalid [([name], BoolInvalid)])"

definition validate_datetime ::
  "(string \<Rightarrow> datetime option) \<Rightarrow> string \<Rightarrow> json option \<Rightarrow> datetime vres" where
  "validate_datetime ext name v =
     (case v of
        None \<Rightarrow> Invalid [([name], Missing)]
      | Some x \<Rightarrow>
          (case convert_to_datetime ext x of
             Inr d \<Rightarrow> Valid d
           | Inl (ValueError msg (JStr s)) \<Rightarrow> Invalid [([name], ValueErrorLine (msg @ s))]
           | Inl e \<Rightarrow> Abort e))"

definition validate_dict :: "string \<Rightarrow> json option \<Rightarrow> pydict vres" where
  "validate_dict name v =
     (case v of
        None \<Rightarrow> Invalid [([name], Missing)]
      | Some (JDict d) \<Rightarrow> Valid d
      | Some _ \<Rightarrow> Invalid [([name], DictType)])"

fun str_items :: "pydict \<Rightarrow> (string \<times> string) list" where
  "str_items [] = []"
| "str_items ((k, JStr s) # kvs) = (k, s) # str_items kvs"
| "str_items (_ # kvs) = str_items kvs"

fun non_str_keys :: "pydict \<Rightarrow> string list" where
  "non_str_keys [] = []"
| "non_str_keys ((k, JStr s) # kvs) = non_str_keys kvs"
| "non_str_keys ((k, _) # kvs) = k # non_str_keys kvs"

definition validate_str_dict :: "string \<Rightarrow> json option \<Rightarrow> (string \<times> string) list vres" where
  "validate_str_dict name v =
     (case v of
        None \<Rightarrow> Invalid [([name], Missing)]
      | Some (JDict d) \<Rightarrow>
          if non_str_keys d = [] then Valid (str_items d)
          else Invalid (map (\<lambda>k. ([name, k], StringType)) (non_str_keys d))
      | Some _ \<Rightarrow> Invalid [([name], DictType)])"

text \<open>
  \<^verbatim>\<open>id\<close> has the alias \<^verbatim>\<open>_id\<close> and \<^verbatim>\<open>populate_by_name\<close>: the alias is looked up
  first, then the name; with neither, the \<^verbatim>\<open>default_factory\<close> gives
  \<^verbatim>\<open>str(uuid.uuid4())\<close>.
\<close>

definition validate_id :: "runtime \<Rightarrow> pydict \<Rightarrow> string vres" where
  "validate_id rt d =
     (case map_of d ''_id'' of
        Some v \<Rightarrow> validate_str ''_id'' (Some v)
      | None \<Rightarrow>
          (case map_of d ''id'' of
             Some v \<Rightarrow> validate_str ''id'' (Some v)
           | None \<Rightarrow> Valid (uuid4 rt)))"

text \<open>
  \<^verbatim>\<open>EntryModel(**entry_data)\<close>: the fields are validated in the order of their
  declaration; the first exception that is not collected leaves at once, otherwise the
  collected lines make one \<^verbatim>\<open>ValidationError\<close>. Further keys are ignored
  (\<^verbatim>\<open>extra = 'ignore'\<close>).
\<close>

definition first_abort :: "error option list \<Rightarrow> error option" where
  "first_abort es = (case List.map_filter (\<lambda>e. e) es of [] \<Rightarrow> None | e # _ \<Rightarrow> Some e)"

definition new_entry :: "runtime \<Rightarrow> entry_class \<Rightarrow> pydict \<Rightarrow> error + entry" where
  "new_entry rt c d =
     (let r_id = validate_id rt d;
          r_user = validate_str ''userId'' (map_of d ''userId'');
          r_created = validate_datetime (fromisoformat_ext rt) ''createdOn'' (map_of d ''createdOn'');
          r_modified = validate_datetime (fromisoformat_ext rt) ''modifiedOn'' (map_of d ''modifiedOn'');
          r_archived = validate_bool ''archived'' (map_of d ''archived'');
          r_type = validate_str ''type'' (map_of d ''type'');
          r_title = validate_str ''title'' (map_of d ''title'');
          r_data = validate_dict ''data'' (map_of d ''data'');
          r_utt = validate_str_dict ''utterance'' (map_of d ''utterance'')
      in case first_abort [abort_of r_id, abort_of r_user, abort_of r_created,
                           abort_of r_modified, abort_of r_archived, abort_of r_type,
                           abort_of r_title, abort_of r_data, abort_of r_utt] of
           Some e \<Rightarrow> Inl e
         | None \<Rightarrow>
             (case (r_id, r_user, r_created, r_modified, r_archived, r_type, r_title, r_data,
                    r_utt) of
                (Valid i, Valid u, Valid co, Valid mo, Valid a, Valid ty, Valid ti, Valid da,
                 Valid ut) \<Rightarrow>
                  Inr \<lparr>cls = c, id' = i, userId = u, createdOn = co, modifiedOn = mo,
                       archived = a, type' = ty, title = ti, data = da, utterance = ut\<rparr>
              | _ \<Rightarrow>
                  Inl (ValidationError
                         (lines_of r_id @ lines_of r_user @ lines_of r_created @
                          lines_of r_modified @ lines_of r_archived @ lines_of r_type @
                          lines_of r_title @ lines_of r_data @ lines_of r_utt))))"

subsection \<open>Resource URLs\<close>

text \<open>
  The comprehension
  \<^verbatim>\<open>[file.get('url') for file in files if file.get('url')]\<close>: an item that is not a
  dictionary has no \<^verbatim>\<open>get\<close> and raises \<^verbatim>\<open>AttributeError\<close>.
\<close>

fun collect_urls :: "json list \<Rightarrow> error + json list" where
  "collect_urls [] = Inr []"
| "collect_urls (JDict f # fs) =
     (case collect_urls fs of
        Inl e \<Rightarrow> Inl e
      | Inr us \<Rightarrow> Inr (if truthy (dict_get f ''url'') then dict_get f ''url'' # us else us))"
| "collect_urls (_ # fs) = Inl AttributeError"

text \<open>
  The body shared by the three \<^verbatim>\<open>get_resource_urls\<close> methods, for the key of the
  sub-object and the key of its list:
  \<^verbatim>\<open>if key in self.data: return [... for file in self.data[key].get(list_key, []) ...]\<close>.
\<close>

definition resource_urls_under :: "string \<Rightarrow> string \<Rightarrow> pydict \<Rightarrow> error + json list" where
  "resource_urls_under key list_key d =
     (case map_of d key of
        None \<Rightarrow> Inr []
      | Some (JDict sub) \<Rightarrow>
          (case py_iter (case map_of sub list_key of None \<Rightarrow> JList [] | Some fs \<Rightarrow> fs) of
             Inl e \<Rightarrow> Inl e
           | Inr fs \<Rightarrow> collect_urls fs)
      | Some _ \<Rightarrow> Inl AttributeError)"

text \<open>
  \<^verbatim>\<open>entry.get_resource_urls()\<close>. The method is defined by \<^verbatim>\<open>VisionEntry\<close>,
  \<^verbatim>\<open>MagicCamEntry\<close> and \<^verbatim>\<open>AiGeneratedImageEntry\<close>; \<^verbatim>\<open>Entry\<close> and the classes whose
  body is \<^verbatim>\<open>pass\<close> have no such attribute.
\<close>

definition get_resource_urls :: "entry \<Rightarrow> error + json list" where
  "get_resource_urls e =
     (case cls e of
        VisionEntry \<Rightarrow> resource_urls_under ''visionData'' ''files'' (data e)
      | MagicCamEntry \<Rightarrow> resource_urls_under ''magicCameraData'' ''aiGeneratedImages'' (data e)
      | AiGeneratedImageEntry \<Rightarrow> resource_urls_under ''aiGeneratedImageData'' ''files'' (data e)
      | _ \<Rightarrow> Inl AttributeError)"

section \<open>The entry factory\<close>

definition entry_type_mapping :: "(string \<times> entry_class) list" where
  "entry_type_mapping =
     [(''ai-generated-image'', AiGeneratedImageEntry),
      (''magic-camera'', MagicCamEntry),
      (''vision'', VisionEntry),
      (''note'', NoteEntry),
      (''conversation'', ConversationEntry),
      (''beta-rabbit'', ConversationEntry),
      (''search'', SearchEntry),
      (''search-memory'', SearchMemoryEntry)]"

text \<open>
  \<^verbatim>\<open>entry_type_mapping.get(entry_type)\<close>: a list or a dictionary is not hashable
  (\<^verbatim>\<open>TypeError\<close>); any other object that is not one of the eight strings is absent.
\<close>

definition mapping_get :: "json \<Rightarrow> error + entry_class option" where
  "mapping_get k =
     (case k of
        JStr s \<Rightarrow> Inr (map_of entry_type_mapping s)
      | JList _ \<Rightarrow> Inl TypeError
      | JDict _ \<Rightarrow> Inl TypeError
      | _ \<Rightarrow> Inr None)"

text \<open>The module-level \<^verbatim>\<open>create_entry_model\<close>: the default of the lookup is \<^verbatim>\<open>Entry\<close>.\<close>

definition create_entry_model :: "runtime \<Rightarrow> pydict \<Rightarrow> error + entry" where
  "create_entry_model rt entry_data =
     (case mapping_get (dict_get entry_data ''type'') of
        Inl e \<Rightarrow> Inl e
      | Inr None \<Rightarrow> new_entry rt Entry entry_data
      | Inr (Some c) \<Rightarrow> new_entry rt c entry_data)"

section \<open>The journal\<close>

record interaction =
  interaction_id :: string
  date :: datetime
  user_utterance :: string
  LAH_action :: string

record journal =
  entries :: "entry deque"
  interactions :: "interaction deque"

text \<open>\<^verbatim>\<open>Journal.__init__\<close>.\<close>

definition Journal_init :: "int \<Rightarrow> error + journal" where
  "Journal_init max_entries =
     (case deque_new max_entries of
        Inl e \<Rightarrow> Inl e
      | Inr es \<Rightarrow>
          (case deque_new max_entries of
             Inl e \<Rightarrow> Inl e
           | Inr is \<Rightarrow> Inr \<lparr>entries = es, interactions = is\<rparr>))"

text \<open>\<^verbatim>\<open>Journal._create_basic_entry\<close>.\<close>

definition create_basic_entry :: "runtime \<Rightarrow> string \<Rightarrow> pydict" where
  "create_basic_entry rt user_input =
     [(''_id'', JStr (uuid1 rt)),
      (''userId'', JStr ''local_user''),
      (''createdOn'', JStr (isoformat (now1 rt))),
      (''modifiedOn'', JStr (isoformat (now2 rt))),
      (''archived'', JBool False),
      (''type'', JStr ''conversation''),
      (''title'', JStr ''CLI Input''),
      (''data'', JDict [(''conversationData'', JDict [(''textContent'', JStr [])])]),
      (''utterance'', JDict [(''prompt'', JStr user_input), (''intention'', JStr ''CONVERSATION'')])]"

text \<open>
  \<^verbatim>\<open>Journal._create_entry\<close>: \<open>Inr None\<close> is the \<^verbatim>\<open>return None\<close> of the
  \<^verbatim>\<open>except Exception\<close>, \<open>Inl\<close> an exception that leaves the method.
\<close>

definition create_entry :: "runtime \<Rightarrow> pydict \<Rightarrow> error + entry option" where
  "create_entry rt entry_data =
     (case mapping_get (dict_get entry_data ''type'') of
        Inl e \<Rightarrow> Inl e
      | Inr (Some entry_class) \<Rightarrow>
          (case new_entry rt entry_class entry_data of
             Inr entry \<Rightarrow> Inr (Some entry)
           | Inl e \<Rightarrow> Inr None)
      | Inr None \<Rightarrow> Inl (ValueError ''Unknown entry type: '' (dict_get entry_data ''type'')))"

text \<open>\<^verbatim>\<open>Journal._add_interaction\<close>; \<^verbatim>\<open>entry.utterance['prompt']\<close> raises \<^verbatim>\<open>KeyError\<close>.\<close>

definition add_interaction :: "journal \<Rightarrow> entry \<Rightarrow> string \<Rightarrow> error + journal" where
  "add_interaction j entry task_response =
     (case map_of (utterance entry) ''prompt'' of
        None \<Rightarrow> Inl (KeyError ''prompt'')
      | Some prompt \<Rightarrow>
          Inr (j\<lparr>interactions :=
                   deque_append (interactions j)
                     \<lparr>interaction_id = id' entry, date = createdOn entry,
                      user_utterance = prompt, LAH_action = task_response\<rparr>\<rparr>))"

text \<open>The payload of \<^verbatim>\<open>add_entry\<close>: \<^verbatim>\<open>Union[Dict[str, Any], str]\<close>.\<close>

datatype entry_input = Payload pydict | Text string

text \<open>
  \<^verbatim>\<open>except (TypeError, ValueError)\<close>: the handler returns \<^verbatim>\<open>None\<close>; any other
  exception leaves \<^verbatim>\<open>add_entry\<close>.
\<close>

definition add_entry_handler :: "error \<Rightarrow> error + entry option" where
  "add_entry_handler e = (if is_TypeError e \<or> is_ValueError e then Inr None else Inl e)"

text \<open>
  \<^verbatim>\<open>Journal.add_entry\<close>: the journal after the call, and what the call returns
  (\<open>Inr\<close>) or raises (\<open>Inl\<close>). \<^verbatim>\<open>llm_response\<close> is \<open>None\<close> when it is not given.
  A model object is always true in \<^verbatim>\<open>if entry:\<close>. The argument of \<^verbatim>\<open>_log_debug\<close>,
  an f-string with \<^verbatim>\<open>entry.model_dump_json()\<close>, is evaluated before the append,
  whatever the debug flag is: an exception of the serializer leaves the \<^verbatim>\<open>try\<close> body
  with nothing appended. The log itself changes nothing.
\<close>

definition add_entry ::
  "runtime \<Rightarrow> journal \<Rightarrow> entry_input \<Rightarrow> string option \<Rightarrow> journal \<times> (error + entry option)" where
  "add_entry rt j entry_input llm_response =
     (let entry_data = (case entry_input of
                          Text s \<Rightarrow> create_basic_entry rt s
                        | Payload d \<Rightarrow> d)
      in case create_entry rt entry_data of
           Inl e \<Rightarrow> (j, add_entry_handler e)
         | Inr None \<Rightarrow> (j, Inr None)
         | Inr (Some entry) \<Rightarrow>
             (case model_dump_json_raises rt entry of
                Some e \<Rightarrow> (j, add_entry_handler e)
              | None \<Rightarrow>
                  (let j1 = j\<lparr>entries := deque_append (entries j) entry\<rparr>
                   in case llm_response of
                        None \<Rightarrow> (j1, Inr (Some entry))
                      | Some r \<Rightarrow>
                          if r = [] then (j1, Inr (Some entry))
                          else (case add_interaction j1 entry r of
                                  Inl e \<Rightarrow> (j1, add_entry_handler e)
                                | Inr j2 \<Rightarrow> (j2, Inr (Some entry))))))"

definition get_entries :: "journal \<Rightarrow> entry list" where
  "get_entries j = items (entries j)"

definition get_interactions :: "journal \<Rightarrow> interaction list" where
  "get_interactions j = items (interactions j)"

section \<open>The resource pipeline\<close>

text \<open>
  The collaborators of \<^verbatim>\<open>save_resources\<close>. The signing service
  (\<^verbatim>\<open>rabbit_hole.fetch_user_entry_resource\<close>, not part of this module) receives the JSON
  text of the raw URL list, here the list itself, and returns an object or raises.
  \<^verbatim>\<open>requests.get\<close> followed by \<^verbatim>\<open>raise_for_status\<close>, and the \<^verbatim>\<open>open\<close> and
  \<^verbatim>\<open>write\<close> of the file, take as first argument the position of the call in the
  loop: the network and the file system may answer the same request differently at
  different times. \<^verbatim>\<open>os.path.join\<close> depends on the platform.
\<close>

datatype http_outcome =
    GetRaises error
  | StatusRaises
  | Content string

record world =
  fetch_user_entry_resource :: "json list \<Rightarrow> error + json"
  requests_get :: "nat \<Rightarrow> json \<Rightarrow> http_outcome"
  write_file :: "nat \<Rightarrow> string \<Rightarrow> string \<Rightarrow> error option"
  os_path_join :: "string \<Rightarrow> string \<Rightarrow> string"

text \<open>
  \<^verbatim>\<open>Journal.get_signed_resource_urls\<close>: every exception of the \<^verbatim>\<open>try\<close> body gives
  \<^verbatim>\<open>[]\<close>, also the \<^verbatim>\<open>AttributeError\<close> of a response that has no \<^verbatim>\<open>get\<close>.
\<close>

definition get_signed_resource_urls :: "world \<Rightarrow> entry \<Rightarrow> json" where
  "get_signed_resource_urls w entry =
     (case get_resource_urls entry of
        Inl e \<Rightarrow> JList []
      | Inr urls \<Rightarrow>
          (case fetch_user_entry_resource w urls of
             Inl e \<Rightarrow> JList []
           | Inr (JDict response) \<Rightarrow>
               (case map_of response ''resources'' of None \<Rightarrow> JList [] | Some v \<Rightarrow> v)
           | Inr _ \<Rightarrow> JList []))"

text \<open>
  The \<^verbatim>\<open>try\<close> body of one iteration of the loop of \<^verbatim>\<open>save_resources\<close>: the
  reported path (\<open>Inr\<close>), or the exception that one of the two handlers logs (\<open>Inl\<close>).
\<close>

definition save_one ::
  "world \<Rightarrow> entry \<Rightarrow> string \<Rightarrow> json list \<Rightarrow> nat \<Rightarrow> json \<Rightarrow> error + string" where
  "save_one w entry directory urls idx resource_url =
     (case requests_get w idx resource_url of
        GetRaises e \<Rightarrow> Inl e
      | StatusRaises \<Rightarrow> Inl RequestException
      | Content content \<Rightarrow>
          if length urls \<le> idx then Inl IndexError
          else
            (case urls ! idx of
               JStr url \<Rightarrow>
                 (let save_name = id' entry @ ''_'' @ last (str_split CHR ''/'' url);
                      save_path = os_path_join w directory save_name
                  in case write_file w idx save_path content of
                       Some e \<Rightarrow> Inl e
                     | None \<Rightarrow> Inr (str_replace CHR ''/'' [backslash] save_path))
             | _ \<Rightarrow> Inl AttributeError))"

text \<open>The loop \<^verbatim>\<open>for idx, resource_url in enumerate(signed_urls)\<close>, from position \<open>idx\<close>.\<close>

fun save_loop ::
  "world \<Rightarrow> entry \<Rightarrow> string \<Rightarrow> json list \<Rightarrow> nat \<Rightarrow> json list \<Rightarrow> string list \<Rightarrow> string list" where
  "save_loop w entry directory urls idx [] saved_files = saved_files"
| "save_loop w entry directory urls idx (resource_url # rest) saved_files =
     save_loop w entry directory urls (Suc idx) rest
       (case save_one w entry directory urls idx resource_url of
          Inr save_path \<Rightarrow> saved_files @ [save_path]
        | Inl e \<Rightarrow> saved_files)"

text \<open>
  \<^verbatim>\<open>Journal.save_resources\<close>. \<^verbatim>\<open>entry.get_resource_urls()\<close> and the start of the
  iteration over \<^verbatim>\<open>signed_urls\<close> are outside every \<^verbatim>\<open>try\<close>.
\<close>

definition save_resources :: "world \<Rightarrow> entry \<Rightarrow> string \<Rightarrow> error + string list" where
  "save_resources w entry directory =
     (case get_resource_urls entry of
        Inl e \<Rightarrow> Inl e
      | Inr urls \<Rightarrow>
          (case py_iter (get_signed_resource_urls w entry) of
             Inl e \<Rightarrow> Inl e
           | Inr signed_urls \<Rightarrow> Inr (save_loop w entry directory urls 0 signed_urls [])))"

section \<open>Sequences of calls\<close>

text \<open>
  A caller that makes one \<^verbatim>\<open>add_entry\<close> call after the other on the same journal and
  goes on after a call that raised; each call comes with what the runtime supplies to it.
\<close>

type_synonym call = "runtime \<times> entry_input \<times> string option"

fun add_entries :: "journal \<Rightarrow> call list \<Rightarrow> journal" where
  "add_entries j [] = j"
| "add_entries j ((rt, inp, resp) # cs) = add_entries (fst (add_entry rt j inp resp)) cs"

text \<open>
  The entry that a call inserts, if any: the one that \<^verbatim>\<open>_create_entry\<close> returns,
  when the serializer accepts it.
\<close>

definition inserted :: "call \<Rightarrow> entry option" where
  "inserted c =
     (case c of (rt, inp, resp) \<Rightarrow>
        (case create_entry rt (case inp of Text s \<Rightarrow> create_basic_entry rt s | Payload d \<Rightarrow> d) of
           Inr (Some e) \<Rightarrow> (case model_dump_json_raises rt e of None \<Rightarrow> Some e | Some x \<Rightarrow> None)
         | _ \<Rightarrow> None))"


section \<open>The pipeline, as the specification words it\<close>

text \<open>
  The path reported for a download: the directory joined with the id of the entry, an
  underscore and the base name of the raw URL, slashes replaced by backslashes.
\<close>

definition saved_path :: "world \<Rightarrow> entry \<Rightarrow> string \<Rightarrow> string \<Rightarrow> string" where
  "saved_path w entry directory url =
     str_replace CHR ''/'' [backslash]
       (os_path_join w directory (id' entry @ ''_'' @ last (str_split CHR ''/'' url)))"

text \<open>The raw URL at a position, when it is a string.\<close>

definition raw_url :: "json list \<Rightarrow> nat \<Rightarrow> string" where
  "raw_url urls i = (case urls ! i of JStr url \<Rightarrow> url | _ \<Rightarrow> [])"

text \<open>
  The download at position \<open>i\<close> succeeds: the fetch of the signed URL returns its
  content, the raw URL list has a string at this position, and the file is written.
\<close>

definition download_succeeds ::
  "world \<Rightarrow> entry \<Rightarrow> string \<Rightarrow> json list \<Rightarrow> json list \<Rightarrow> nat \<Rightarrow> bool" where
  "download_succeeds w entry directory urls signed_urls i =
     (case requests_get w i (signed_urls ! i) of
        Content content \<Rightarrow>
          i < length urls \<and>
          (case urls ! i of
             JStr url \<Rightarrow>
               write_file w i
                 (os_path_join w directory (id' entry @ ''_'' @ last (str_split CHR ''/'' url)))
                 content = None
           | _ \<Rightarrow> False)
      | _ \<Rightarrow> False)"

section \<open>Timestamps, as the specification words them\<close>

text \<open>
  An ISO-8601 timestamp in the extended format with a time zone: the calendar date, the
  time of day to the second, an optional decimal fraction of three or six digits, and a
  zone that is \<^verbatim>\<open>Z\<close> or a signed offset of hours and minutes. \<open>iso_text\<close> is the
  string, \<open>iso_value\<close> the instant it denotes as an aware datetime, \<open>iso_valid\<close> the
  ranges of the fields (no leap second).
\<close>

datatype fraction = NoFraction | Millis nat | Micros nat

datatype zone = Zulu | Offset bool nat nat

record iso_timestamp =
  iso_year :: nat
  iso_month :: nat
  iso_day :: nat
  iso_hour :: nat
  iso_minute :: nat
  iso_second :: nat
  iso_fraction :: fraction
  iso_zone :: zone

definition digits3 :: "nat \<Rightarrow> string" where
  "digits3 n = [digit_char (n div 100), digit_char (n div 10), digit_char n]"

fun fraction_text :: "fraction \<Rightarrow> string" where
  "fraction_text NoFraction = []"
| "fraction_text (Millis n) = ''.'' @ digits3 n"
| "fraction_text (Micros n) = ''.'' @ digits6 n"

fun fraction_microseconds :: "fraction \<Rightarrow> nat" where
  "fraction_microseconds NoFraction = 0"
| "fraction_microseconds (Millis n) = n * 1000"
| "fraction_microseconds (Micros n) = n"

fun fraction_valid :: "fraction \<Rightarrow> bool" where
  "fraction_valid NoFraction = True"
| "fraction_valid (Millis n) = (n < 1000)"
| "fraction_valid (Micros n) = (n < 1000000)"

text \<open>\<open>Offset negative hh mm\<close> is written \<^verbatim>\<open>-hh:mm\<close> or \<^verbatim>\<open>+hh:mm\<close>.\<close>

fun zone_text :: "zone \<Rightarrow> string" where
  "zone_text Zulu = ''Z''"
| "zone_text (Offset negative hh mm) =
     [if negative then CHR ''-'' else CHR ''+''] @ digits2 hh @ '':'' @ digits2 mm"

fun zone_offset :: "zone \<Rightarrow> int" where
  "zone_offset Zulu = 0"
| "zone_offset (Offset negative hh mm) =
     (if negative then - 1 else 1) * (int (hh * 60 + mm) * 60000000)"

fun zone_valid :: "zone \<Rightarrow> bool" where
  "zone_valid Zulu = True"
| "zone_valid (Offset negative hh mm) = (hh < 24 \<and> mm < 60)"

definition iso_text :: "iso_timestamp \<Rightarrow> string" where
  "iso_text t =
     digits4 (iso_year t) @ ''-'' @ digits2 (iso_month t) @ ''-'' @ digits2 (iso_day t) @ ''T'' @
     digits2 (iso_hour t) @ '':'' @ digits2 (iso_minute t) @ '':'' @ digits2 (iso_second t) @
     fraction_text (iso_fraction t) @ zone_text (iso_zone t)"

definition iso_value :: "iso_timestamp \<Rightarrow> datetime" where
  "iso_value t =
     \<lparr>year = iso_year t, month = iso_month t, day = iso_day t, hour = iso_hour t,
      minute = iso_minute t, second = iso_second t,
      microsecond = fraction_microseconds (iso_fraction t),
      utcoffset = Some (zone_offset (iso_zone t))\<rparr>"

definition iso_valid :: "iso_timestamp \<Rightarrow> bool" where
  "iso_valid t =
     (1 \<le> iso_year t \<and> iso_year t \<le> 9999 \<and> 1 \<le> iso_month t \<and> iso_month t \<le> 12 \<and>
      1 \<le> iso_day t \<and> iso_day t \<le> days_in_month (iso_year t) (iso_month t) \<and>
      iso_hour t < 24 \<and> iso_minute t < 60 \<and> iso_second t < 60 \<and>
      fraction_valid (iso_fraction t) \<and> zone_valid (iso_zone t))"

section \<open>Example inputs\<close>

text \<open>
  A runtime whose interpreter accepts no timestamp beyond the common ones and whose
  serializer accepts every entry; a payload with
  a given \<^verbatim>\<open>type\<close> and id, valid in every other field, with an empty \<^verbatim>\<open>data\<close> and
  an empty \<^verbatim>\<open>utterance\<close>; the entry that a class makes of it.
\<close>

definition example_runtime :: runtime where
  "example_runtime =
     \<lparr>uuid4 = ''uuid-4'', uuid1 = ''uuid-1'',
      now1 = \<lparr>year = 2024, month = 5, day = 1, hour = 10, minute = 0, second = 0,
               microsecond = 17, utcoffset = Some 0\<rparr>,
      now2 = \<lparr>year = 2024, month = 5, day = 1, hour = 10, minute = 0, second = 0,
               microsecond = 42, utcoffset = Some 0\<rparr>,
      fromisoformat_ext = (\<lambda>s. None), model_dump_json_raises = (\<lambda>entry. None)\<rparr>"

definition example_payload :: "string \<Rightarrow> string \<Rightarrow> pydict" where
  "example_payload ty i =
     [(''_id'', JStr i), (''userId'', JStr ''u''),
      (''createdOn'', JStr ''2024-01-01T00:00:00Z''),
      (''modifiedOn'', JStr ''2024-01-01T00:00:00+02:00''),
      (''archived'', JBool False), (''type'', JStr ty), (''title'', JStr ''t''),
      (''data'', JDict []), (''utterance'', JDict [])]"

definition example_created :: datetime where
  "example_created =
     \<lparr>year = 2024, month = 1, day = 1, hour = 0, minute = 0, second = 0, microsecond = 0,
      utcoffset = Some 0\<rparr>"

definition example_modified :: datetime where
  "example_modified =
     \<lparr>year = 2024, month = 1, day = 1, hour = 0, minute = 0, second = 0, microsecond = 0,
      utcoffset = Some 7200000000\<rparr>"

definition example_entry :: "entry_class \<Rightarrow> string \<Rightarrow> string \<Rightarrow> entry" where
  "example_entry c ty i =
     \<lparr>cls = c, id' = i, userId = ''u'', createdOn = example_created,
      modifiedOn = example_modified, archived = False, type' = ty, title = ''t'',
      data = [], utterance = []\<rparr>"

definition note_payload :: "string \<Rightarrow> pydict" where
  "note_payload i = example_payload ''note'' i"

definition note_entry :: "string \<Rightarrow> entry" where
  "note_entry i = example_entry NoteEntry ''note'' i"

definition empty_journal :: "nat \<Rightarrow> journal" where
  "empty_journal n =
     \<lparr>entries = \<lparr>items = [], maxlen = n\<rparr>, interactions = \<lparr>items = [], maxlen = n\<rparr>\<rparr>"

text \<open>
  The vision entry of the scenario, with the \<^verbatim>\<open>data\<close>
  \<^verbatim>\<open>{visionData: {files: [{url: "http://x/a.jpg"}, {}]}}\<close>.
\<close>

definition vision_entry :: "pydict \<Rightarrow> entry" where
  "vision_entry d = (example_entry VisionEntry ''vision'' ''V'')\<lparr>data := d\<rparr>"

definition scenario_data :: pydict where
  "scenario_data =
     [(''visionData'',
       JDict [(''files'', JList [JDict [(''url'', JStr ''http://x/a.jpg'')], JDict []])])]"

text \<open>
  A vision entry with three raw URLs, and a world whose signing service answers them
  with three signed URLs, whose second download fails, whose files are all written, and
  whose paths are joined with a slash.
\<close>

definition three_urls_data :: pydict where
  "three_urls_data =
     [(''visionData'',
       JDict [(''files'', JList [JDict [(''url'', JStr ''http://x/a.jpg'')],
                                 JDict [(''url'', JStr ''http://x/b.jpg'')],
                                 JDict [(''url'', JStr ''http://x/c.jpg'')]])])]"

definition example_world :: world where
  "example_world =
     \<lparr>fetch_user_entry_resource =
        (\<lambda>urls. Inr (JDict [(''resources'', JList [JStr ''s0'', JStr ''s1'', JStr ''s2''])])),
      requests_get = (\<lambda>idx url. if idx = 1 then GetRaises RequestException else Content ''bytes''),
      write_file = (\<lambda>idx path content. None),
      os_path_join = (\<lambda>directory name. directory @ ''/'' @ name)\<rparr>"

text \<open>The same world with a signing service that raises.\<close>

definition failing_sign_world :: world where
  "failing_sign_world =
     example_world\<lparr>fetch_user_entry_resource := (\<lambda>urls. Inl (OtherException ''network''))\<rparr>"

text \<open>
  The entry that \<^verbatim>\<open>add_entry\<close> makes of a text in the example runtime, the
  interaction derived from it and a response, and a journal of capacity 1 that holds one
  such entry and its interaction.
\<close>

definition text_entry :: "string \<Rightarrow> entry" where
  "text_entry s =
     \<lparr>cls = ConversationEntry, id' = ''uuid-1'', userId = ''local_user'',
      createdOn = now1 example_runtime, modifiedOn = now2 example_runtime, archived = False,
      type' = ''conversation'', title = ''CLI Input'',
      data = [(''conversationData'', JDict [(''textContent'', JStr [])])],
      utterance = [(''prompt'', s), (''intention'', ''CONVERSATION'')]\<rparr>"

definition text_interaction :: "string \<Rightarrow> string \<Rightarrow> interaction" where
  "text_interaction s r =
     \<lparr>interaction_id = ''uuid-1'', date = now1 example_runtime, user_utterance = s,
      LAH_action = r\<rparr>"

definition full_journal :: journal where
  "full_journal =
     \<lparr>entries = \<lparr>items = [text_entry ''a''], maxlen = 1\<rparr>,
      interactions = \<lparr>items = [text_interaction ''a'' ''r1''], maxlen = 1\<rparr>\<rparr>"

text \<open>The timestamp \<^verbatim>\<open>2024-01-01T00:00:00Z\<close>.\<close>

definition example_timestamp :: iso_timestamp where
  "example_timestamp =
     \<lparr>iso_year = 2024, iso_month = 1, iso_day = 1, iso_hour = 0, iso_minute = 0,
      iso_second = 0, iso_fraction = NoFraction, iso_zone = Zulu\<rparr>"

text \<open>The example runtime with a serializer that refuses the entry whose id is \<^verbatim>\<open>B\<close>.\<close>

definition refusing_runtime :: runtime where
  "refusing_runtime =
     example_runtime\<lparr>model_dump_json_raises :=
       (\<lambda>entry. if id' entry = ''B'' then Some PydanticSerializationError else None)\<rparr>"

text \<open>Vision entries whose \<^verbatim>\<open>visionData\<close>, or whose \<^verbatim>\<open>files\<close>, is \<^verbatim>\<open>None\<close>.\<close>

definition null_vision_data :: pydict where
  "null_vision_data = [(''visionData'', JNull)]"

definition null_files_data :: pydict where
  "null_files_data = [(''visionData'', JDict [(''files'', JNull)])]"

section \<open>Bounded deques\<close>

lemma maxlen_deque_append: "maxlen (deque_append q x) = maxlen q"
  by (simp add: deque_append_def Let_def)

lemma items_deque_append:
  "items (deque_append q x) =
     (if maxlen q < Suc (length (items q)) then tl (items q @ [x]) else items q @ [x])"
  by (simp add: deque_append_def Let_def)

lemma length_deque_append:
  "length (items (deque_append q x)) =
     (if length (items q) < maxlen q then Suc (length (items q)) else length (items q))"
  by (auto simp: items_deque_append)

lemma items_deque_append_drop:
  assumes "length (items q) \<le> maxlen q"
  shows "items (deque_append q x) = drop (length (items q @ [x]) - maxlen q) (items q @ [x])"
proof (cases "length (items q) < maxlen q")
  case True
  then show ?thesis by (simp add: items_deque_append)
next
  case False
  with assms have "length (items q @ [x]) - maxlen q = Suc 0" by simp
  moreover have "drop (Suc 0) (items q @ [x]) = tl (items q @ [x])"
    by (simp only: drop_Suc drop_0)
  ultimately show ?thesis using False by (simp only: items_deque_append) simp
qed

lemma drop_drop_append:
  assumes "a \<le> length xs"
  shows "drop k (drop a xs @ ys) = drop (k + a) (xs @ ys)"
proof -
  have "drop (k + a) (xs @ ys) = drop k (drop a (xs @ ys))" by (simp only: drop_drop)
  also have "drop a (xs @ ys) = drop a xs @ ys" using assms by simp
  finally have "drop (k + a) (xs @ ys) = drop k (drop a xs @ ys)" .
  then show ?thesis by (rule sym)
qed

text \<open>The last \<open>N\<close> items of the last \<open>N\<close> items of \<open>xs\<close> followed by \<open>ys\<close>.\<close>

lemma window_window:
  "drop (length (drop (length xs - N) xs @ ys) - N) (drop (length xs - N) xs @ ys) =
   drop (length (xs @ ys) - N) (xs @ ys)"
proof -
  have "length (drop (length xs - N) xs @ ys) - N + (length xs - N) = length (xs @ ys) - N"
    by simp
  then show ?thesis
    using drop_drop_append[of "length xs - N" xs "length (drop (length xs - N) xs @ ys) - N" ys]
    by (simp only: diff_le_self)
qed

section \<open>The examples evaluated\<close>

lemma parse_created: "parse_core ''2024-01-01T00:00:00+00:00'' = Parsed example_created"
  by (simp add: parse_core_def digits_val_def digits_step_def digit_val_def parse_frac_def
      parse_tz_def is_sign_def days_in_month_def is_leap_def example_created_def)

lemma parse_modified: "parse_core ''2024-01-01T00:00:00+02:00'' = Parsed example_modified"
  by (simp add: parse_core_def digits_val_def digits_step_def digit_val_def parse_frac_def
      parse_tz_def is_sign_def days_in_month_def is_leap_def example_modified_def)

lemma new_example_entry:
  "new_entry example_runtime c (example_payload ty i) = Inr (example_entry c ty i)"
  by (simp add: new_entry_def example_payload_def example_entry_def validate_id_def
      validate_str_def validate_datetime_def convert_to_datetime_def fromisoformat_def
      str_replace_def parse_created parse_modified validate_bool_def validate_dict_def
      validate_str_dict_def first_abort_def)

lemma type_example_payload: "dict_get (example_payload ty i) ''type'' = JStr ty"
  by (simp add: example_payload_def dict_get_def)

lemma create_note_entry:
  "create_entry example_runtime (note_payload i) = Inr (Some (note_entry i))"
  by (simp add: create_entry_def note_payload_def note_entry_def new_example_entry
      mapping_get_def type_example_payload entry_type_mapping_def)

lemma example_serializer: "model_dump_json_raises example_runtime e = None"
  by (simp add: example_runtime_def)

lemma inserted_note:
  "inserted (example_runtime, Payload (note_payload i), resp) = Some (note_entry i)"
  by (simp add: inserted_def create_note_entry example_serializer)

text \<open>The entry that is made does not depend on the serializer.\<close>

lemma validate_id_serializer:
  "validate_id (rt\<lparr>model_dump_json_raises := f\<rparr>) d = validate_id rt d"
  by (simp add: validate_id_def split: option.splits)

lemma new_entry_serializer:
  "new_entry (rt\<lparr>model_dump_json_raises := f\<rparr>) c d = new_entry rt c d"
  by (simp add: new_entry_def validate_id_serializer)

lemma create_entry_serializer:
  "create_entry (rt\<lparr>model_dump_json_raises := f\<rparr>) d = create_entry rt d"
  by (simp add: create_entry_def new_entry_serializer split: sum.splits option.splits)

lemma inserted_note_refusing:
  "inserted (refusing_runtime, Payload (note_payload i), resp) =
     (if i = ''B'' then None else Some (note_entry i))"
  by (simp add: inserted_def refusing_runtime_def create_entry_serializer create_note_entry
      note_entry_def example_entry_def)

lemma Journal_init_empty:
  "0 \<le> n \<Longrightarrow> n < 2 ^ 63 \<Longrightarrow> Journal_init n = Inr (empty_journal (nat n))"
  by (simp add: Journal_init_def deque_new_def empty_journal_def)

lemma Journal_init_Inr:
  "Journal_init n = Inr j \<Longrightarrow> 0 \<le> n \<and> j = empty_journal (nat n)"
  by (auto simp: Journal_init_def deque_new_def empty_journal_def split: if_splits)

section \<open>The entries log\<close>

lemma entries_add_entry:
  "entries (fst (add_entry rt j inp resp)) =
     (case inserted (rt, inp, resp) of
        Some e \<Rightarrow> deque_append (entries j) e
      | None \<Rightarrow> entries j)"
  by (auto simp: add_entry_def inserted_def Let_def add_interaction_def
           split: sum.splits option.splits entry_input.splits)

lemma entries_add_entries:
  "length (items (entries j)) \<le> maxlen (entries j) \<Longrightarrow>
   maxlen (entries (add_entries j cs)) = maxlen (entries j) \<and>
   items (entries (add_entries j cs)) =
     drop (length (items (entries j) @ List.map_filter inserted cs) - maxlen (entries j))
          (items (entries j) @ List.map_filter inserted cs)"
proof (induction cs arbitrary: j)
  case Nil
  then show ?case by simp
next
  case (Cons c cs)
  obtain rt inp resp where c: "c = (rt, inp, resp)" by (cases c)
  let ?j = "fst (add_entry rt j inp resp)"
  let ?r = "List.map_filter inserted cs"
  let ?N = "maxlen (entries j)"
  have step: "add_entries j (c # cs) = add_entries ?j cs" by (simp add: c)
  show ?case
  proof (cases "inserted c")
    case None
    then have "entries ?j = entries j" by (simp add: entries_add_entry c)
    moreover have "List.map_filter inserted (c # cs) = ?r"
      using None by simp
    ultimately show ?thesis using Cons.IH[of ?j] Cons.prems step by simp
  next
    case (Some e)
    then have e: "entries ?j = deque_append (entries j) e" by (simp add: entries_add_entry c)
    have mf: "List.map_filter inserted (c # cs) = e # ?r"
      using Some by simp
    have N: "maxlen (entries ?j) = ?N" by (simp add: e maxlen_deque_append)
    have len: "length (items (entries ?j)) \<le> maxlen (entries ?j)"
      using Cons.prems by (simp add: e maxlen_deque_append length_deque_append)
    have its: "items (entries ?j) =
        drop (length (items (entries j) @ [e]) - ?N) (items (entries j) @ [e])"
      using Cons.prems by (simp only: e items_deque_append_drop)
    have "items (entries (add_entries ?j cs)) =
        drop (length (items (entries ?j) @ ?r) - ?N) (items (entries ?j) @ ?r)"
      using Cons.IH[OF len] by (simp only: N)
    also have "\<dots> = drop (length ((items (entries j) @ [e]) @ ?r) - ?N)
                        ((items (entries j) @ [e]) @ ?r)"
      by (simp only: its window_window)
    finally have "items (entries (add_entries ?j cs)) =
        drop (length (items (entries j) @ e # ?r) - ?N) (items (entries j) @ e # ?r)"
      by simp
    moreover have "maxlen (entries (add_entries ?j cs)) = ?N"
      using Cons.IH[OF len] by (simp only: N)
    ultimately show ?thesis by (simp only: step mf)
  qed
qed

text \<open>
  C1. A journal made by \<^verbatim>\<open>Journal(n)\<close> that has served any sequence of \<^verbatim>\<open>add_entry\<close>
  calls holds the last \<open>n\<close> of the entries these calls inserted (the entries that were
  validated and that the serializer accepted), in the order of their insertion, whatever
  the entries are; when more than \<open>n\<close> entries were inserted it holds exactly \<open>n\<close>. In
  the example a call whose entry the serializer refuses inserts nothing.
\<close>

theorem entries_log_fifo:
  assumes "Journal_init n = Inr j0"
  shows "get_entries (add_entries j0 cs) =
           drop (length (List.map_filter inserted cs) - nat n) (List.map_filter inserted cs) \<and>
         (nat n < length (List.map_filter inserted cs) \<longrightarrow>
            length (get_entries (add_entries j0 cs)) = nat n)"
  using entries_add_entries[of j0 cs] Journal_init_Inr[OF assms]
  by (auto simp: get_entries_def empty_journal_def)

theorem entries_log_fifo_witness:
  "Journal_init 2 = Inr (empty_journal 2) \<and>
   get_entries (add_entries (empty_journal 2)
     [(example_runtime, Payload (note_payload ''A''), None),
      (example_runtime, Payload (note_payload ''B''), None),
      (example_runtime, Payload (note_payload ''C''), None)]) =
     [note_entry ''B'', note_entry ''C''] \<and>
   get_entries (add_entries (empty_journal 2)
     [(example_runtime, Payload (note_payload ''A''), None),
      (example_runtime, Payload (note_payload ''B''), None),
      (example_runtime, Payload (note_payload ''C''), None),
      (example_runtime, Payload (note_payload ''D''), None)]) =
     [note_entry ''C'', note_entry ''D''] \<and>
   get_entries (add_entries (empty_journal 2)
     [(refusing_runtime, Payload (note_payload ''A''), None),
      (refusing_runtime, Payload (note_payload ''B''), None),
      (refusing_runtime, Payload (note_payload ''C''), None)]) =
     [note_entry ''A'', note_entry ''C'']"
proof -
  have init: "Journal_init 2 = Inr (empty_journal 2)"
    using Journal_init_empty[of 2] by simp
  show ?thesis
    using entries_log_fifo[OF init,
            of "[(example_runtime, Payload (note_payload ''A''), None),
                 (example_runtime, Payload (note_payload ''B''), None),
                 (example_runtime, Payload (note_payload ''C''), None)]"]
          entries_log_fifo[OF init,
            of "[(example_runtime, Payload (note_payload ''A''), None),
                 (example_runtime, Payload (note_payload ''B''), None),
                 (example_runtime, Payload (note_payload ''C''), None),
                 (example_runtime, Payload (note_payload ''D''), None)]"]
          entries_log_fifo[OF init,
            of "[(refusing_runtime, Payload (note_payload ''A''), None),
                 (refusing_runtime, Payload (note_payload ''B''), None),
                 (refusing_runtime, Payload (note_payload ''C''), None)]"]
    by (simp add: init inserted_note inserted_note_refusing)
qed

section \<open>Exceptions of \<^verbatim>\<open>add_entry\<close>\<close>

text \<open>
  What leaves \<^verbatim>\<open>add_entry\<close> is the \<^verbatim>\<open>KeyError\<close> of a missing prompt, or an exception
  of the serializer that is neither a \<^verbatim>\<open>TypeError\<close> nor a \<^verbatim>\<open>ValueError\<close>.
\<close>

lemma add_entry_raises_only:
  assumes "snd (add_entry rt j inp resp) = Inl e"
  shows "(e = KeyError ''prompt'' \<and> (\<exists>r. resp = Some r \<and> r \<noteq> [])) \<or>
         (\<exists>entry. model_dump_json_raises rt entry = Some e \<and> \<not> is_TypeError e \<and>
                  \<not> is_ValueError e)"
  using assms
  by (auto simp: add_entry_def Let_def add_entry_handler_def create_entry_def mapping_get_def
      add_interaction_def
      split: sum.splits option.splits if_splits json.splits)

text \<open>
  C2. The claim is that no call of \<^verbatim>\<open>add_entry\<close> raises. A valid payload whose
  \<^verbatim>\<open>utterance\<close> has no \<^verbatim>\<open>prompt\<close>, given with a response, is validated and appended
  to the entries log; then \<^verbatim>\<open>_add_interaction\<close> raises \<^verbatim>\<open>KeyError\<close>, which
  \<^verbatim>\<open>except (TypeError, ValueError)\<close> does not catch.
\<close>

theorem add_entry_KeyError_escapes:
  "add_entry example_runtime (empty_journal 2) (Payload (note_payload ''A'')) (Some ''ok'') =
     (\<lparr>entries = \<lparr>items = [note_entry ''A''], maxlen = 2\<rparr>,
       interactions = \<lparr>items = [], maxlen = 2\<rparr>\<rparr>,
      Inl (KeyError ''prompt''))"
  by (simp add: add_entry_def create_note_entry example_serializer add_interaction_def
      add_entry_handler_def empty_journal_def deque_append_def note_entry_def
      example_entry_def)

section \<open>Unknown entry types\<close>

lemma known_types:
  "fst ` set entry_type_mapping =
     {''ai-generated-image'', ''magic-camera'', ''vision'', ''note'', ''conversation'',
      ''beta-rabbit'', ''search'', ''search-memory''}"
  by (auto simp: entry_type_mapping_def)

text \<open>
  C3, as stated, fails for the module-level factory: \<^verbatim>\<open>create_entry_model\<close> looks the
  type up with the default \<^verbatim>\<open>Entry\<close>, so a payload of the unknown type
  \<^verbatim>\<open>unknown-xyz\<close> becomes a generic entry.
\<close>

theorem create_entry_model_falls_back:
  "create_entry_model example_runtime (example_payload ''unknown-xyz'' ''A'') =
     Inr (example_entry Entry ''unknown-xyz'' ''A'')"
  by (simp add: create_entry_model_def type_example_payload mapping_get_def
      entry_type_mapping_def new_example_entry)

text \<open>
  C3, amended. For every payload whose \<^verbatim>\<open>type\<close> is not one of the eight known
  strings (absent, not a string, or another string), \<^verbatim>\<open>add_entry\<close> returns no entry
  and leaves both logs as they were; when the type is a string, \<^verbatim>\<open>_create_entry\<close>
  raises the \<^verbatim>\<open>ValueError\<close> whose message names it.
\<close>

theorem unknown_type_rejected_by_store:
  assumes "dict_get d ''type'' \<notin> JStr ` fst ` set entry_type_mapping"
  shows "add_entry rt j (Payload d) resp = (j, Inr None) \<and>
         (\<forall>t. dict_get d ''type'' = JStr t \<longrightarrow>
            create_entry rt d = Inl (ValueError ''Unknown entry type: '' (JStr t)))"
proof -
  have "\<And>t. dict_get d ''type'' = JStr t \<Longrightarrow> map_of entry_type_mapping t = None"
    using assms by (auto simp: map_of_eq_None_iff)
  then show ?thesis
    by (cases "dict_get d ''type''")
       (simp_all add: add_entry_def create_entry_def mapping_get_def add_entry_handler_def)
qed

theorem unknown_type_rejected_by_store_witness:
  "dict_get (example_payload ''unknown-xyz'' ''A'') ''type'' \<notin> JStr ` fst ` set entry_type_mapping \<and>
   add_entry example_runtime (empty_journal 2) (Payload (example_payload ''unknown-xyz'' ''A''))
     (Some ''ok'') = (empty_journal 2, Inr None) \<and>
   create_entry example_runtime (example_payload ''unknown-xyz'' ''A'') =
     Inl (ValueError ''Unknown entry type: '' (JStr ''unknown-xyz''))"
proof -
  have h: "dict_get (example_payload ''unknown-xyz'' ''A'') ''type'' \<notin>
             JStr ` fst ` set entry_type_mapping"
    by (simp add: type_example_payload known_types)
  show ?thesis
    using h unknown_type_rejected_by_store[OF h, of example_runtime "empty_journal 2" "Some ''ok''"]
    by (simp add: type_example_payload)
qed

section \<open>Resource URLs\<close>

text \<open>
  C4, as stated, fails: \<^verbatim>\<open>NoteEntry\<close> defines no \<^verbatim>\<open>get_resource_urls\<close>, so the call
  on a note entry raises \<^verbatim>\<open>AttributeError\<close> and does not return the empty list.
\<close>

theorem note_entry_has_no_extraction:
  "get_resource_urls (note_entry ''A'') = Inl AttributeError"
  by (simp add: get_resource_urls_def note_entry_def example_entry_def)

text \<open>
  C4, amended. For every entry of a non-resource variant the extraction raises
  \<^verbatim>\<open>AttributeError\<close>; and for every entry the outcome of the extraction, a list or an
  exception, is determined by the class and the \<^verbatim>\<open>data\<close> of the entry alone, so that
  a second call gives the same outcome.
\<close>

theorem extraction_of_non_resource_variants:
  "(cls e \<in> {NoteEntry, ConversationEntry, SearchEntry, SearchMemoryEntry} \<longrightarrow>
      get_resource_urls e = Inl AttributeError) \<and>
   (cls e' = cls e \<and> data e' = data e \<longrightarrow> get_resource_urls e' = get_resource_urls e)"
  by (auto simp: get_resource_urls_def split: entry_class.splits)

theorem extraction_of_non_resource_variants_witness:
  "cls (note_entry ''A'') \<in> {NoteEntry, ConversationEntry, SearchEntry, SearchMemoryEntry} \<and>
   cls (note_entry ''B'') = cls (note_entry ''A'') \<and>
   data (note_entry ''B'') = data (note_entry ''A'') \<and>
   get_resource_urls (note_entry ''A'') = Inl AttributeError \<and>
   get_resource_urls (note_entry ''B'') = get_resource_urls (note_entry ''A'')"
  using extraction_of_non_resource_variants[of "note_entry ''A''" "note_entry ''B''"]
  by (simp add: note_entry_def example_entry_def)

lemma collect_urls_dicts:
  "collect_urls (map JDict fs) = Inr (filter truthy (map (\<lambda>f. dict_get f ''url'') fs))"
  by (induction fs) simp_all

lemma resource_urls_under_shapes:
  "(map_of d key = None \<longrightarrow> resource_urls_under key list_key d = Inr []) \<and>
   (\<forall>sub. map_of d key = Some (JDict sub) \<and> map_of sub list_key = None \<longrightarrow>
      resource_urls_under key list_key d = Inr []) \<and>
   (\<forall>sub fs. map_of d key = Some (JDict sub) \<and> map_of sub list_key = Some (JList (map JDict fs)) \<longrightarrow>
      resource_urls_under key list_key d =
        Inr (filter truthy (map (\<lambda>f. dict_get f ''url'') fs)))"
  by (auto simp: resource_urls_under_def collect_urls_dicts)

lemma filter_truthy_urls:
  assumes "\<forall>f \<in> set fs. map_of f ''url'' = None \<or> (\<exists>u. u \<noteq> [] \<and> map_of f ''url'' = Some (JStr u))"
  shows "filter truthy (map (\<lambda>f. dict_get f ''url'') fs) =
         map (\<lambda>f. the (map_of f ''url'')) (filter (\<lambda>f. map_of f ''url'' \<noteq> None) fs)"
  using assms by (induction fs) (auto simp: dict_get_def)

lemma vision_entry_simps:
  "cls (vision_entry d) = VisionEntry" "data (vision_entry d) = d" "id' (vision_entry d) = ''V''"
  by (simp_all add: vision_entry_def example_entry_def)

text \<open>
  C5, as stated, fails: it promises a list and no error for every vision entry. A
  \<^verbatim>\<open>visionData\<close> that is present and \<^verbatim>\<open>None\<close> has no \<^verbatim>\<open>get\<close>
  (\<^verbatim>\<open>AttributeError\<close>), a \<^verbatim>\<open>files\<close> that is \<^verbatim>\<open>None\<close> cannot be iterated
  (\<^verbatim>\<open>TypeError\<close>), a \<^verbatim>\<open>url\<close> that is the empty string is skipped although its key is
  there, and a \<^verbatim>\<open>url\<close> that is the number 5 is returned although it is no string.
\<close>

theorem vision_extraction_fails_on_other_shapes:
  "get_resource_urls (vision_entry null_vision_data) = Inl AttributeError \<and>
   get_resource_urls (vision_entry null_files_data) = Inl TypeError \<and>
   get_resource_urls (vision_entry
     [(''visionData'', JDict [(''files'', JList [JDict [(''url'', JStr [])]])])]) = Inr [] \<and>
   get_resource_urls (vision_entry
     [(''visionData'', JDict [(''files'', JList [JDict [(''url'', JInt 5)]])])]) = Inr [JInt 5]"
  by (simp add: get_resource_urls_def vision_entry_simps resource_urls_under_def
      null_vision_data_def null_files_data_def dict_get_def)

text \<open>
  C5, amended. For a vision entry whose \<^verbatim>\<open>data\<close> has no \<^verbatim>\<open>visionData\<close>, or whose
  \<^verbatim>\<open>visionData\<close> is an object without \<^verbatim>\<open>files\<close>, the extraction returns the empty
  list. When \<^verbatim>\<open>visionData\<close> is an object whose \<^verbatim>\<open>files\<close> is a list of objects it
  returns, in the order of the list, the \<^verbatim>\<open>url\<close> of every object whose \<^verbatim>\<open>url\<close> is
  true, skipping the objects without a \<^verbatim>\<open>url\<close> key; these are exactly the URL strings
  of the objects that have a \<^verbatim>\<open>url\<close> key when every \<^verbatim>\<open>url\<close> present is a non-empty
  string.
\<close>

theorem vision_resource_urls:
  assumes "cls e = VisionEntry"
  shows "(map_of (data e) ''visionData'' = None \<longrightarrow> get_resource_urls e = Inr []) \<and>
         (\<forall>vd. map_of (data e) ''visionData'' = Some (JDict vd) \<and> map_of vd ''files'' = None \<longrightarrow>
            get_resource_urls e = Inr []) \<and>
         (\<forall>vd fs. map_of (data e) ''visionData'' = Some (JDict vd) \<and>
                  map_of vd ''files'' = Some (JList (map JDict fs)) \<longrightarrow>
            get_resource_urls e = Inr (filter truthy (map (\<lambda>f. dict_get f ''url'') fs)) \<and>
            ((\<forall>f \<in> set fs. map_of f ''url'' = None \<or>
                            (\<exists>u. u \<noteq> [] \<and> map_of f ''url'' = Some (JStr u))) \<longrightarrow>
             get_resource_urls e =
               Inr (map (\<lambda>f. the (map_of f ''url'')) (filter (\<lambda>f. map_of f ''url'' \<noteq> None) fs))))"
proof -
  have g: "get_resource_urls e = resource_urls_under ''visionData'' ''files'' (data e)"
    using assms by (simp add: get_resource_urls_def)
  show ?thesis
  proof (intro conjI allI impI)
    assume "map_of (data e) ''visionData'' = None"
    then show "get_resource_urls e = Inr []"
      using resource_urls_under_shapes[of "data e" "''visionData''" "''files''"] g by simp
  next
    fix vd
    assume "map_of (data e) ''visionData'' = Some (JDict vd) \<and> map_of vd ''files'' = None"
    then show "get_resource_urls e = Inr []"
      using resource_urls_under_shapes[of "data e" "''visionData''" "''files''"] g by simp
  next
    fix vd fs
    assume "map_of (data e) ''visionData'' = Some (JDict vd) \<and>
            map_of vd ''files'' = Some (JList (map JDict fs))"
    then show "get_resource_urls e = Inr (filter truthy (map (\<lambda>f. dict_get f ''url'') fs))"
      by (simp add: g resource_urls_under_def collect_urls_dicts)
  next
    fix vd fs
    assume shape: "map_of (data e) ''visionData'' = Some (JDict vd) \<and>
                   map_of vd ''files'' = Some (JList (map JDict fs))"
       and urls: "\<forall>f \<in> set fs. map_of f ''url'' = None \<or>
                                (\<exists>u. u \<noteq> [] \<and> map_of f ''url'' = Some (JStr u))"
    from shape have "get_resource_urls e = Inr (filter truthy (map (\<lambda>f. dict_get f ''url'') fs))"
      by (simp add: g resource_urls_under_def collect_urls_dicts)
    then show "get_resource_urls e =
        Inr (map (\<lambda>f. the (map_of f ''url'')) (filter (\<lambda>f. map_of f ''url'' \<noteq> None) fs))"
      by (simp only: filter_truthy_urls[OF urls])
  qed
qed

theorem vision_resource_urls_witness:
  "cls (vision_entry scenario_data) = VisionEntry \<and>
   get_resource_urls (vision_entry scenario_data) = Inr [JStr ''http://x/a.jpg''] \<and>
   get_resource_urls (vision_entry []) = Inr [] \<and>
   get_resource_urls (vision_entry [(''visionData'', JDict [])]) = Inr []"
proof -
  have c: "cls (vision_entry d) = VisionEntry" for d
    by (simp add: vision_entry_def example_entry_def)
  have d: "data (vision_entry d) = d" for d
    by (simp add: vision_entry_def)
  note t = vision_resource_urls[OF c]
  have "get_resource_urls (vision_entry scenario_data) = Inr [JStr ''http://x/a.jpg'']"
    using t[of scenario_data, THEN conjunct2, THEN conjunct2, rule_format,
            of "[(''files'', JList [JDict [(''url'', JStr ''http://x/a.jpg'')], JDict []])]"
               "[[(''url'', JStr ''http://x/a.jpg'')], []]", THEN conjunct2]
    by (simp add: d scenario_data_def)
  moreover have "get_resource_urls (vision_entry []) = Inr []"
    using t[of "[]", THEN conjunct1] by (simp add: d)
  moreover have "get_resource_urls (vision_entry [(''visionData'', JDict [])]) = Inr []"
    using t[of "[(''visionData'', JDict [])]", THEN conjunct2, THEN conjunct1, rule_format, of "[]"]
    by (simp add: d)
  ultimately show ?thesis by (simp add: c)
qed

section \<open>The interactions log\<close>

lemma char_of_digits:
  "char_of (48::nat) = CHR ''0''" "char_of (49::nat) = CHR ''1''" "char_of (50::nat) = CHR ''2''"
  "char_of (51::nat) = CHR ''3''" "char_of (52::nat) = CHR ''4''" "char_of (53::nat) = CHR ''5''"
  "char_of (54::nat) = CHR ''6''" "char_of (55::nat) = CHR ''7''" "char_of (56::nat) = CHR ''8''"
  "char_of (57::nat) = CHR ''9''"
  by (simp_all add: char_of_eq_iff)

lemma isoformat_now1:
  "isoformat (now1 example_runtime) = ''2024-05-01T10:00:00.000017+00:00''"
  by (simp add: example_runtime_def isoformat_def format_offset_def digits2_def digits4_def
      digits6_def digit_char_def char_of_digits)

lemma isoformat_now2:
  "isoformat (now2 example_runtime) = ''2024-05-01T10:00:00.000042+00:00''"
  by (simp add: example_runtime_def isoformat_def format_offset_def digits2_def digits4_def
      digits6_def digit_char_def char_of_digits)

lemma parse_now1:
  "parse_core ''2024-05-01T10:00:00.000017+00:00'' = Parsed (now1 example_runtime)"
  by (simp add: parse_core_def digits_val_def digits_step_def digit_val_def parse_frac_def
      parse_tz_def is_sign_def days_in_month_def is_leap_def example_runtime_def)

lemma parse_now2:
  "parse_core ''2024-05-01T10:00:00.000042+00:00'' = Parsed (now2 example_runtime)"
  by (simp add: parse_core_def digits_val_def digits_step_def digit_val_def parse_frac_def
      parse_tz_def is_sign_def days_in_month_def is_leap_def example_runtime_def)

lemma create_text_entry:
  "create_entry example_runtime (create_basic_entry example_runtime s) = Inr (Some (text_entry s))"
  by (simp add: create_entry_def create_basic_entry_def dict_get_def mapping_get_def
      entry_type_mapping_def new_entry_def validate_id_def validate_str_def
      validate_datetime_def convert_to_datetime_def fromisoformat_def isoformat_now1
      isoformat_now2 str_replace_def parse_now1 parse_now2 validate_bool_def validate_dict_def
      validate_str_dict_def first_abort_def text_entry_def)
     (simp add: example_runtime_def)

lemma add_text_entry:
  "r \<noteq> [] \<Longrightarrow>
   add_entry example_runtime j (Text s) (Some r) =
     (j\<lparr>entries := deque_append (entries j) (text_entry s),
        interactions := deque_append (interactions j) (text_interaction s r)\<rparr>,
      Inr (Some (text_entry s)))"
  by (simp add: add_entry_def create_text_entry example_serializer add_interaction_def
      text_entry_def text_interaction_def)

lemma add_entry_returns:
  assumes "add_entry rt j inp resp = (j', Inr (Some e))"
  shows "entries j' = deque_append (entries j) e \<and>
         (case resp of
            None \<Rightarrow> interactions j' = interactions j
          | Some r \<Rightarrow>
              if r = [] then interactions j' = interactions j
              else (\<exists>p. map_of (utterance e) ''prompt'' = Some p \<and>
                     interactions j' =
                       deque_append (interactions j)
                         \<lparr>interaction_id = id' e, date = createdOn e, user_utterance = p,
                          LAH_action = r\<rparr>))"
  using assms
  by (auto simp: add_entry_def Let_def add_interaction_def add_entry_handler_def
           split: sum.splits option.splits if_splits)

text \<open>
  C7, as stated, fails when the interactions log is full: the journal of capacity 1 that
  has served one call with a response serves a second one, which returns its entry, and
  the log has one interaction before and after.
\<close>

theorem full_interactions_log_keeps_its_size:
  "add_entry example_runtime (empty_journal 1) (Text ''a'') (Some ''r1'') =
     (full_journal, Inr (Some (text_entry ''a''))) \<and>
   snd (add_entry example_runtime full_journal (Text ''b'') (Some ''r2'')) =
     Inr (Some (text_entry ''b'')) \<and>
   length (get_interactions full_journal) = 1 \<and>
   length (get_interactions (fst (add_entry example_runtime full_journal (Text ''b'')
     (Some ''r2'')))) = 1"
  by (simp add: add_text_entry empty_journal_def full_journal_def deque_append_def
      get_interactions_def)

text \<open>
  C7, amended. For every call of \<^verbatim>\<open>add_entry\<close> that returns an entry: without a
  response, or with the empty string as response, the interactions log is left as it
  was; with a non-empty response the interaction derived from the entry is appended
  under the bound of the log, so its size grows by exactly one when the log was below
  its capacity and stays the same, the oldest interaction being dropped, when it was not.
\<close>

theorem interactions_after_add_entry:
  assumes "add_entry rt j inp resp = (j', Inr (Some e))"
  shows "(resp = None \<or> resp = Some [] \<longrightarrow> interactions j' = interactions j) \<and>
         (\<forall>r. resp = Some r \<and> r \<noteq> [] \<longrightarrow>
            map_of (utterance e) ''prompt'' \<noteq> None \<and>
            interactions j' =
              deque_append (interactions j)
                \<lparr>interaction_id = id' e, date = createdOn e,
                 user_utterance = the (map_of (utterance e) ''prompt''), LAH_action = r\<rparr> \<and>
            length (get_interactions j') =
              (if length (get_interactions j) < maxlen (interactions j)
               then Suc (length (get_interactions j))
               else length (get_interactions j)))"
  using add_entry_returns[OF assms]
  by (auto simp: get_interactions_def length_deque_append)

theorem interactions_after_add_entry_witness:
  "add_entry example_runtime (empty_journal 2) (Text ''a'') (Some ''r1'') =
     (\<lparr>entries = \<lparr>items = [text_entry ''a''], maxlen = 2\<rparr>,
       interactions = \<lparr>items = [text_interaction ''a'' ''r1''], maxlen = 2\<rparr>\<rparr>,
      Inr (Some (text_entry ''a''))) \<and>
   length (get_interactions (empty_journal 2)) = 0 \<and>
   length (get_interactions
     \<lparr>entries = \<lparr>items = [text_entry ''a''], maxlen = 2\<rparr>,
      interactions = \<lparr>items = [text_interaction ''a'' ''r1''], maxlen = 2\<rparr>\<rparr>) = 1"
proof -
  have h: "add_entry example_runtime (empty_journal 2) (Text ''a'') (Some ''r1'') =
     (\<lparr>entries = \<lparr>items = [text_entry ''a''], maxlen = 2\<rparr>,
       interactions = \<lparr>items = [text_interaction ''a'' ''r1''], maxlen = 2\<rparr>\<rparr>,
      Inr (Some (text_entry ''a'')))"
    by (simp add: add_text_entry empty_journal_def deque_append_def)
  show ?thesis
    using h interactions_after_add_entry[OF h]
    by (simp add: get_interactions_def empty_journal_def deque_append_def text_entry_def
        text_interaction_def)
qed

section \<open>The resource pipeline\<close>

lemma save_one_Inr:
  "save_one w e dir urls i (signed ! i) = Inr p \<longleftrightarrow>
     download_succeeds w e dir urls signed i \<and> p = saved_path w e dir (raw_url urls i)"
  by (auto simp: save_one_def download_succeeds_def saved_path_def raw_url_def Let_def
           split: http_outcome.splits json.splits option.splits)

lemma save_one_Inl:
  "(\<exists>err. save_one w e dir urls i (signed ! i) = Inl err) \<longleftrightarrow>
     \<not> download_succeeds w e dir urls signed i"
  by (auto simp: save_one_def download_succeeds_def Let_def
           split: http_outcome.splits json.splits option.splits)

lemma save_loop_eq:
  "length pre = idx \<Longrightarrow>
   save_loop w e dir urls idx xs acc =
     acc @ map (\<lambda>i. saved_path w e dir (raw_url urls i))
               (filter (download_succeeds w e dir urls (pre @ xs)) [idx..<idx + length xs])"
proof (induction xs arbitrary: pre idx acc)
  case Nil
  then show ?case by simp
next
  case (Cons x xs)
  have at: "(pre @ x # xs) ! idx = x"
    using Cons.prems nth_append_length[of pre x xs] by simp
  have up: "[idx..<idx + length (x # xs)] = idx # [Suc idx..<Suc idx + length xs]"
    using upt_conv_Cons[of idx "Suc idx + length xs"] by simp
  have IH: "save_loop w e dir urls (Suc idx) xs acc' =
      acc' @ map (\<lambda>i. saved_path w e dir (raw_url urls i))
               (filter (download_succeeds w e dir urls (pre @ x # xs))
                  [Suc idx..<Suc idx + length xs])" for acc'
    using Cons.IH[of "pre @ [x]" "Suc idx" acc'] Cons.prems by simp
  show ?case
  proof (cases "save_one w e dir urls idx x")
    case (Inl err)
    then have "\<not> download_succeeds w e dir urls (pre @ x # xs) idx"
      using save_one_Inl[of w e dir urls idx "pre @ x # xs"] at by auto
    then show ?thesis using Inl IH by (simp only: up save_loop.simps) simp
  next
    case (Inr p)
    then have "download_succeeds w e dir urls (pre @ x # xs) idx \<and>
               p = saved_path w e dir (raw_url urls idx)"
      using save_one_Inr[of w e dir urls idx "pre @ x # xs" p] at by auto
    then show ?thesis using Inr IH by (simp only: up save_loop.simps) simp
  qed
qed

lemma download_succeeds_bound:
  "download_succeeds w e dir urls signed i \<Longrightarrow> i < length urls"
  by (auto simp: download_succeeds_def split: http_outcome.splits)

lemma length_filter_bound:
  assumes "\<And>i. P i \<Longrightarrow> i < k"
  shows "length (filter P [0..<n]) \<le> k"
proof -
  have "set (filter P [0..<n]) \<subseteq> {0..<k}" using assms by auto
  moreover have "distinct (filter P [0..<n])" by simp
  ultimately have "card (set (filter P [0..<n])) \<le> card {0..<k}"
    by (intro card_mono) auto
  moreover have "length (filter P [0..<n]) = card (set (filter P [0..<n]))"
    by (rule distinct_card[symmetric]) simp
  ultimately show ?thesis by simp
qed

lemma three_urls:
  "get_resource_urls (vision_entry three_urls_data) =
     Inr [JStr ''http://x/a.jpg'', JStr ''http://x/b.jpg'', JStr ''http://x/c.jpg'']"
  by (simp add: get_resource_urls_def vision_entry_simps resource_urls_under_def
      three_urls_data_def dict_get_def)

lemma one_url:
  "get_resource_urls (vision_entry scenario_data) = Inr [JStr ''http://x/a.jpg'']"
  by (simp add: get_resource_urls_def vision_entry_simps resource_urls_under_def
      scenario_data_def dict_get_def)

lemma example_world_simps:
  "fetch_user_entry_resource example_world urls =
     Inr (JDict [(''resources'', JList [JStr ''s0'', JStr ''s1'', JStr ''s2''])])"
  "requests_get example_world idx url =
     (if idx = 1 then GetRaises RequestException else Content ''bytes'')"
  "write_file example_world idx path content = None"
  "os_path_join example_world directory name = directory @ ''/'' @ name"
  by (simp_all add: example_world_def)

lemma three_signed:
  "get_signed_resource_urls example_world (vision_entry three_urls_data) =
     JList [JStr ''s0'', JStr ''s1'', JStr ''s2'']"
  "get_signed_resource_urls example_world (vision_entry scenario_data) =
     JList [JStr ''s0'', JStr ''s1'', JStr ''s2'']"
  by (simp_all add: get_signed_resource_urls_def three_urls one_url example_world_simps)

text \<open>
  C6. For an entry whose raw URLs are extracted and a signing service that answers with
  a list of signed URLs, \<^verbatim>\<open>save_resources\<close> returns, in the order of the positions, the
  reported paths of exactly the positions whose download succeeds: a failed fetch or
  write skips its position and the loop goes on. In the example three signed URLs are
  given, the second fetch raises, and the two paths of the first and third raw URLs
  are returned.
\<close>

theorem save_resources_partial:
  assumes "get_resource_urls e = Inr urls"
      and "get_signed_resource_urls w e = JList signed"
  shows "save_resources w e dir =
           Inr (map (\<lambda>i. saved_path w e dir (raw_url urls i))
                    (filter (download_succeeds w e dir urls signed) [0..<length signed]))"
  using assms save_loop_eq[of "[]" 0 w e dir urls signed "[]"]
  by (simp add: save_resources_def)

theorem save_resources_partial_witness:
  "get_resource_urls (vision_entry three_urls_data) =
     Inr [JStr ''http://x/a.jpg'', JStr ''http://x/b.jpg'', JStr ''http://x/c.jpg''] \<and>
   get_signed_resource_urls example_world (vision_entry three_urls_data) =
     JList [JStr ''s0'', JStr ''s1'', JStr ''s2''] \<and>
   requests_get example_world 1 (JStr ''s1'') = GetRaises RequestException \<and>
   save_resources example_world (vision_entry three_urls_data) ''out'' =
     Inr [''out'' @ [backslash] @ ''V_a.jpg'', ''out'' @ [backslash] @ ''V_c.jpg'']"
  using save_resources_partial[OF three_urls three_signed(1), of "''out''"]
  by (simp add: three_urls three_signed download_succeeds_def saved_path_def raw_url_def
      example_world_simps vision_entry_simps str_replace_def)

text \<open>
  C9. When the call of the signing service raises, whatever the exception,
  \<^verbatim>\<open>get_signed_resource_urls\<close> returns the empty list and \<^verbatim>\<open>save_resources\<close>
  returns the empty list of saved paths; nothing is raised. (The signing service is
  called with the raw URLs of the entry, so their extraction has succeeded.)
\<close>

theorem signing_failure_gives_no_paths:
  assumes "get_resource_urls e = Inr urls"
      and "fetch_user_entry_resource w urls = Inl err"
  shows "get_signed_resource_urls w e = JList [] \<and> save_resources w e dir = Inr []"
  using assms by (simp add: get_signed_resource_urls_def save_resources_def)

theorem signing_failure_gives_no_paths_witness:
  "get_resource_urls (vision_entry three_urls_data) =
     Inr [JStr ''http://x/a.jpg'', JStr ''http://x/b.jpg'', JStr ''http://x/c.jpg''] \<and>
   fetch_user_entry_resource failing_sign_world
     [JStr ''http://x/a.jpg'', JStr ''http://x/b.jpg'', JStr ''http://x/c.jpg''] =
     Inl (OtherException ''network'') \<and>
   get_signed_resource_urls failing_sign_world (vision_entry three_urls_data) = JList [] \<and>
   save_resources failing_sign_world (vision_entry three_urls_data) ''out'' = Inr []"
proof -
  have f: "fetch_user_entry_resource failing_sign_world
     [JStr ''http://x/a.jpg'', JStr ''http://x/b.jpg'', JStr ''http://x/c.jpg''] =
     Inl (OtherException ''network'')"
    by (simp add: failing_sign_world_def)
  show ?thesis
    using three_urls f signing_failure_gives_no_paths[OF three_urls f, of "''out''"]
    by simp
qed

text \<open>
  C10. When the signing service answers with a list, \<^verbatim>\<open>save_resources\<close> does not
  raise and returns at most as many paths as there are raw URLs; at a position that has
  no raw URL the body of the loop raises (\<^verbatim>\<open>IndexError\<close>, unless the fetch failed
  first), which the handlers of the loop catch, and no path is saved for it.
\<close>

theorem excess_signed_urls_are_skipped:
  assumes "get_resource_urls e = Inr urls"
      and "get_signed_resource_urls w e = JList signed"
  shows "(\<exists>saved. save_resources w e dir = Inr saved \<and> length saved \<le> length urls) \<and>
         (\<forall>idx u. length urls \<le> idx \<longrightarrow> (\<exists>err. save_one w e dir urls idx u = Inl err))"
proof (intro conjI allI impI)
  show "\<exists>saved. save_resources w e dir = Inr saved \<and> length saved \<le> length urls"
    using save_loop_eq[of "[]" 0 w e dir urls signed "[]"] assms
          length_filter_bound[of "download_succeeds w e dir urls signed" "length urls" "length signed"]
          download_succeeds_bound[of w e dir urls signed]
    by (simp add: save_resources_def)
next
  fix idx u
  assume "length urls \<le> idx"
  then show "\<exists>err. save_one w e dir urls idx u = Inl err"
    by (simp add: save_one_def split: http_outcome.splits)
qed

theorem excess_signed_urls_are_skipped_witness:
  "get_resource_urls (vision_entry scenario_data) = Inr [JStr ''http://x/a.jpg''] \<and>
   get_signed_resource_urls example_world (vision_entry scenario_data) =
     JList [JStr ''s0'', JStr ''s1'', JStr ''s2''] \<and>
   save_resources example_world (vision_entry scenario_data) ''out'' =
     Inr [''out'' @ [backslash] @ ''V_a.jpg''] \<and>
   save_one example_world (vision_entry scenario_data) ''out'' [JStr ''http://x/a.jpg''] 2
     (JStr ''s2'') = Inl IndexError"
proof -
  have s: "save_resources example_world (vision_entry scenario_data) ''out'' =
     Inr [''out'' @ [backslash] @ ''V_a.jpg'']"
    by (simp add: save_resources_def one_url three_signed save_one_def example_world_simps
        vision_entry_simps str_replace_def)
  have "\<exists>err. save_one example_world (vision_entry scenario_data) ''out''
          [JStr ''http://x/a.jpg''] 2 (JStr ''s2'') = Inl err"
    using excess_signed_urls_are_skipped[OF one_url three_signed(2), of "''out''"] by simp
  moreover have "save_one example_world (vision_entry scenario_data) ''out''
          [JStr ''http://x/a.jpg''] 2 (JStr ''s2'') = Inl IndexError"
    by (simp add: save_one_def example_world_simps)
  ultimately show ?thesis using one_url three_signed(2) s by simp
qed

section \<open>Timestamps\<close>

lemma dec3:
  assumes "n < 1000"
  shows "10 * (10 * (n div 100 mod 10) + n div 10 mod 10) + n mod 10 = (n::nat)"
proof -
  have e: "n div 100 = n div 10 div 10" by (simp add: div_mult2_eq[symmetric])
  have "n div 100 < 10" using assms by (simp add: less_mult_imp_div_less)
  then have "n div 10 div 10 mod 10 = n div 10 div 10" by (simp add: e)
  then show ?thesis by (simp add: e)
qed

lemma dec4:
  assumes "n < 10000"
  shows "10 * (10 * (10 * (n div 1000 mod 10) + n div 100 mod 10) + n div 10 mod 10) + n mod 10 = (n::nat)"
proof -
  have e: "n div 100 = n div 10 div 10" "n div 1000 = n div 10 div 10 div 10"
    by (simp_all add: div_mult2_eq[symmetric])
  have "n div 1000 < 10" using assms by (simp add: less_mult_imp_div_less)
  then have "n div 10 div 10 div 10 mod 10 = n div 10 div 10 div 10" by (simp add: e)
  then show ?thesis by (simp add: e)
qed

lemma dec6:
  assumes "n < 1000000"
  shows "10 * (10 * (10 * (10 * (10 * (n div 100000 mod 10) + n div 10000 mod 10) +
           n div 1000 mod 10) + n div 100 mod 10) + n div 10 mod 10) + n mod 10 = (n::nat)"
proof -
  have e: "n div 100 = n div 10 div 10" "n div 1000 = n div 10 div 10 div 10"
    "n div 10000 = n div 10 div 10 div 10 div 10"
    "n div 100000 = n div 10 div 10 div 10 div 10 div 10"
    by (simp_all add: div_mult2_eq[symmetric])
  have "n div 100000 < 10" using assms by (simp add: less_mult_imp_div_less)
  then have "n div 10 div 10 div 10 div 10 div 10 mod 10 = n div 10 div 10 div 10 div 10 div 10"
    by (simp add: e)
  then show ?thesis by (simp add: e)
qed

lemma digit_val_digit_char: "digit_val (digit_char n) = Some (n mod 10)"
proof -
  have "n mod 10 < 10" by simp
  then have "48 + n mod 10 < 256" by linarith
  then have "(48 + n mod 10) mod 256 = 48 + n mod 10"
    by (rule mod_less)
  then show ?thesis by (simp add: digit_val_def digit_char_def Let_def)
qed

lemma digit_char_neq: "digit_val c = None \<Longrightarrow> digit_char n \<noteq> c"
  using digit_val_digit_char[of n] by auto

lemma digit_char_not_special [simp]:
  "digit_char n \<noteq> CHR ''Z''" "digit_char n \<noteq> CHR ''+''" "digit_char n \<noteq> CHR ''-''"
  "digit_char n \<noteq> CHR ''.''" "digit_char n \<noteq> CHR '':''" "digit_char n \<noteq> CHR ''T''"
  by (rule digit_char_neq, simp add: digit_val_def)+

lemma digits_val_digits2: "n < 100 \<Longrightarrow> digits_val (digits2 n) = Some n"
  by (simp add: digits_val_def digits2_def digits_step_def digit_val_digit_char)

lemma digits_val_digits3: "n < 1000 \<Longrightarrow> digits_val (digits3 n) = Some n"
  using dec3[of n]
  by (simp add: digits_val_def digits3_def digits_step_def digit_val_digit_char)

lemma digits_val_digits4: "n < 10000 \<Longrightarrow> digits_val (digits4 n) = Some n"
  using dec4[of n]
  by (simp add: digits_val_def digits4_def digits_step_def digit_val_digit_char)

lemma digits_val_digits6: "n < 1000000 \<Longrightarrow> digits_val (digits6 n) = Some n"
  using dec6[of n]
  by (simp add: digits_val_def digits6_def digits_step_def digit_val_digit_char)

lemma str_replace_append:
  "str_replace c new (xs @ ys) = str_replace c new xs @ str_replace c new ys"
  by (simp add: str_replace_def)

lemma str_replace_absent: "c \<notin> set xs \<Longrightarrow> str_replace c new xs = xs"
  by (induction xs) (auto simp: str_replace_def)

lemma parse_frac_text:
  "fraction_valid f \<Longrightarrow> parse_frac (fraction_text f) = Some (fraction_microseconds f)"
  by (cases f) (simp_all add: parse_frac_def digits_val_digits3 digits_val_digits6,
                simp_all add: digits3_def digits6_def)


text \<open>The zone as \<^verbatim>\<open>fromisoformat\<close> receives it.\<close>

lemma replace_zone_text:
  "str_replace CHR ''Z'' ''+00:00'' (zone_text Zulu) = ''+00:00''"
  "str_replace CHR ''Z'' ''+00:00'' (zone_text (Offset neg hh mm)) =
     [if neg then CHR ''-'' else CHR ''+''] @ digits2 hh @ '':'' @ digits2 mm"
  by (simp_all add: str_replace_def digits2_def)

lemma parse_tz_zone:
  assumes "zone_valid z"
  shows "parse_tz (str_replace CHR ''Z'' ''+00:00'' (zone_text z)) = Some (Some (zone_offset z))"
proof (cases z)
  case Zulu
  have "parse_tz ''+00:00'' = Some (Some 0)"
    by (simp add: parse_tz_def is_sign_def digits_val_def digits_step_def digit_val_def)
  then show ?thesis by (simp only: Zulu replace_zone_text zone_offset.simps)
next
  case (Offset neg hh mm)
  with assms have r: "hh < 24" "mm < 60" by simp_all
  then have d: "digits_val (digits2 hh) = Some hh" "digits_val (digits2 mm) = Some mm"
    by (simp_all add: digits_val_digits2)
  have "parse_tz ([if neg then CHR ''-'' else CHR ''+''] @ digits2 hh @ '':'' @ digits2 mm) =
          Some (Some (zone_offset (Offset neg hh mm)))"
    using d r by (simp add: parse_tz_def is_sign_def digits2_def)
  then show ?thesis by (simp only: Offset replace_zone_text)
qed

lemma replace_fraction_text:
  "str_replace CHR ''Z'' ''+00:00'' (fraction_text f) = fraction_text f"
  by (cases f) (simp_all add: str_replace_def digits3_def digits6_def)

lemma fraction_text_no_sign: "c \<in> set (fraction_text f) \<Longrightarrow> \<not> is_sign c"
  by (cases f) (auto simp: is_sign_def digits3_def digits6_def)

lemma zone_text_sign:
  "is_sign (hd (str_replace CHR ''Z'' ''+00:00'' (zone_text z)))"
  by (cases z) (simp_all only: replace_zone_text, simp_all add: is_sign_def)

lemma zone_text_not_Nil: "str_replace CHR ''Z'' ''+00:00'' (zone_text z) \<noteq> []"
  by (cases z) (simp_all only: replace_zone_text, simp_all)

lemma split_fraction_zone:
  assumes "\<And>c. c \<in> set fr \<Longrightarrow> \<not> is_sign c" "tz \<noteq> []" "is_sign (hd tz)"
  shows "takeWhile (\<lambda>c. \<not> is_sign c) (fr @ tz) = fr"
    and "dropWhile (\<lambda>c. \<not> is_sign c) (fr @ tz) = tz"
  using assms by (cases tz; simp)+


lemma days_in_month_le: "days_in_month y m \<le> 31"
  by (simp add: days_in_month_def)

lemma parse_core_fields:
  assumes v: "1 \<le> y" "y \<le> 9999" "1 \<le> mo" "mo \<le> 12" "1 \<le> d" "d \<le> days_in_month y mo"
             "h < 24" "mi < 60" "s < 60"
      and fr: "\<And>c. c \<in> set fr \<Longrightarrow> \<not> is_sign c" "parse_frac fr = Some us"
      and tz: "tz \<noteq> []" "is_sign (hd tz)" "parse_tz tz = Some off"
  shows "parse_core (digits4 y @ ''-'' @ digits2 mo @ ''-'' @ digits2 d @ ''T'' @
                     digits2 h @ '':'' @ digits2 mi @ '':'' @ digits2 s @ fr @ tz) =
         Parsed \<lparr>year = y, month = mo, day = d, hour = h, minute = mi, second = s,
                 microsecond = us, utcoffset = off\<rparr>"
proof -
  have d100: "d < 100" using v(6) days_in_month_le[of y mo] by simp
  have dv: "digits_val [digit_char (y div 1000), digit_char (y div 100), digit_char (y div 10),
                        digit_char y] = Some y"
           "digits_val [digit_char (mo div 10), digit_char mo] = Some mo"
           "digits_val [digit_char (d div 10), digit_char d] = Some d"
           "digits_val [digit_char (h div 10), digit_char h] = Some h"
           "digits_val [digit_char (mi div 10), digit_char mi] = Some mi"
           "digits_val [digit_char (s div 10), digit_char s] = Some s"
    using v d100 digits_val_digits4[of y, unfolded digits4_def]
          digits_val_digits2[of mo, unfolded digits2_def]
          digits_val_digits2[of d, unfolded digits2_def]
          digits_val_digits2[of h, unfolded digits2_def]
          digits_val_digits2[of mi, unfolded digits2_def]
          digits_val_digits2[of s, unfolded digits2_def]
    by simp_all
  note sp = split_fraction_zone[OF fr(1) tz(1,2)]
  show ?thesis
    using v by (simp add: parse_core_def digits4_def digits2_def dv sp fr(2) tz(3))
qed


lemma replace_digits:
  "str_replace CHR ''Z'' new (digits2 n) = digits2 n"
  "str_replace CHR ''Z'' new (digits4 n) = digits4 n"
  by (simp_all add: str_replace_def digits2_def digits4_def)

lemma replace_iso_text:
  "str_replace CHR ''Z'' ''+00:00'' (iso_text t) =
     digits4 (iso_year t) @ ''-'' @ digits2 (iso_month t) @ ''-'' @ digits2 (iso_day t) @ ''T'' @
     digits2 (iso_hour t) @ '':'' @ digits2 (iso_minute t) @ '':'' @ digits2 (iso_second t) @
     fraction_text (iso_fraction t) @ str_replace CHR ''Z'' ''+00:00'' (zone_text (iso_zone t))"
proof -
  have lit: "str_replace CHR ''Z'' ''+00:00'' ''-'' = ''-''"
            "str_replace CHR ''Z'' ''+00:00'' ''T'' = ''T''"
            "str_replace CHR ''Z'' ''+00:00'' '':'' = '':''"
    by (simp_all add: str_replace_def)
  show ?thesis
    by (simp only: iso_text_def str_replace_append replace_digits replace_fraction_text lit)
qed

lemma parse_iso_text:
  assumes "iso_valid t"
  shows "parse_core (str_replace CHR ''Z'' ''+00:00'' (iso_text t)) = Parsed (iso_value t)"
proof -
  from assms have v: "1 \<le> iso_year t" "iso_year t \<le> 9999" "1 \<le> iso_month t"
      "iso_month t \<le> 12" "1 \<le> iso_day t" "iso_day t \<le> days_in_month (iso_year t) (iso_month t)"
      "iso_hour t < 24" "iso_minute t < 60" "iso_second t < 60"
      and f: "fraction_valid (iso_fraction t)" and z: "zone_valid (iso_zone t)"
    by (simp_all add: iso_valid_def)
  show ?thesis
    unfolding replace_iso_text iso_value_def
    by (rule parse_core_fields[OF v fraction_text_no_sign parse_frac_text[OF f] zone_text_not_Nil
          zone_text_sign parse_tz_zone[OF z]])
qed

lemma convert_iso_text:
  assumes "iso_valid t"
  shows "convert_to_datetime ext (JStr (iso_text t)) = Inr (iso_value t)"
  by (simp add: convert_to_datetime_def fromisoformat_def parse_iso_text[OF assms])


lemma format_offset_zone:
  assumes "zone_valid z"
  shows "format_offset (zone_offset z) =
           zone_text (case z of
                        Zulu \<Rightarrow> Offset False 0 0
                      | Offset neg hh mm \<Rightarrow> Offset (neg \<and> 0 < hh * 60 + mm) hh mm)"
proof (cases z)
  case Zulu
  then show ?thesis by (simp add: format_offset_def Let_def)
next
  case (Offset neg hh mm)
  with assms have r: "hh < 24" "mm < 60" by simp_all
  let ?m = "hh * 60 + mm"
  let ?a = "60000000 * ?m"
  have a: "nat \<bar>zone_offset z\<bar> = ?a"
    by (simp add: Offset abs_mult nat_mult_distrib)
  have m0: "?a mod 60000000 = 0" by simp
  have "?a div 3600000000 = ?m div 60"
    using div_mult_mult1[of 60000000 ?m 60] by simp
  then have hh: "?a div 3600000000 = hh" using r by simp
  have "?a mod 3600000000 = 60000000 * (?m mod 60)"
    using mult_mod_right[of 60000000 ?m 60] by simp
  then have mm: "?a mod 3600000000 div 60000000 = mm" using r by simp
  have sg: "zone_offset z < 0 \<longleftrightarrow> neg \<and> 0 < ?m"
    by (auto simp: Offset mult_less_0_iff)
  show ?thesis
    unfolding format_offset_def Let_def a
    by (simp only: m0 hh mm sg) (simp add: Offset)
qed


text \<open>What \<^verbatim>\<open>isoformat\<close> writes for the value of a valid timestamp is a valid timestamp
  with the same value.\<close>

lemma isoformat_iso_value:
  assumes "iso_valid t"
  shows "\<exists>t'. iso_valid t' \<and> iso_value t' = iso_value t \<and> isoformat (iso_value t) = iso_text t'"
proof -
  let ?us = "fraction_microseconds (iso_fraction t)"
  let ?f = "if ?us = 0 then NoFraction else Micros ?us"
  let ?z = "case iso_zone t of
              Zulu \<Rightarrow> Offset False 0 0
            | Offset neg hh mm \<Rightarrow> Offset (neg \<and> 0 < hh * 60 + mm) hh mm"
  let ?t = "t\<lparr>iso_fraction := ?f, iso_zone := ?z\<rparr>"
  from assms have f: "fraction_valid (iso_fraction t)" and z: "zone_valid (iso_zone t)"
    by (simp_all add: iso_valid_def)
  have us: "?us < 1000000" using f by (cases "iso_fraction t") simp_all
  have zv: "zone_valid ?z" using z by (cases "iso_zone t") simp_all
  have zo: "zone_offset ?z = zone_offset (iso_zone t)"
    by (cases "iso_zone t") auto
  have "iso_valid ?t" using assms us zv by (simp add: iso_valid_def)
  moreover have "iso_value ?t = iso_value t"
    using zo by (simp add: iso_value_def)
  moreover have "isoformat (iso_value t) = iso_text ?t"
    by (simp add: isoformat_def iso_value_def iso_text_def format_offset_zone[OF z])
  ultimately show ?thesis by blast
qed

lemma valid_iso_value:
  assumes "iso_valid t"
  shows "valid_datetime (iso_value t)"
proof -
  from assms have f: "fraction_valid (iso_fraction t)" and z: "zone_valid (iso_zone t)"
    by (simp_all add: iso_valid_def)
  have us: "fraction_microseconds (iso_fraction t) < 1000000"
    using f by (cases "iso_fraction t") simp_all
  have off: "- 86400000000 < zone_offset (iso_zone t) \<and> zone_offset (iso_zone t) < 86400000000"
  proof (cases "iso_zone t")
    case Zulu
    then show ?thesis by simp
  next
    case (Offset neg hh mm)
    with z have "hh * 60 + mm < 1440" by simp
    then have "int (hh * 60 + mm) < 1440" by simp
    then have "int (hh * 60 + mm) * 60000000 < 86400000000" by simp
    moreover have "0 \<le> int (hh * 60 + mm) * 60000000" by simp
    ultimately show ?thesis by (simp add: Offset)
  qed
  show ?thesis
    using assms us off by (simp add: valid_datetime_def iso_valid_def iso_value_def)
qed

lemma leap_second_rejected:
  "convert_to_datetime ext (JStr ''2016-12-31T23:59:60Z'') =
     Inl (ValueError ''Invalid date format: '' (JStr ''2016-12-31T23:59:60Z''))"
proof -
  have "parse_core ''2016-12-31T23:59:60+00:00'' = OutOfRange"
    by (simp add: parse_core_def digits_val_def digits_step_def digit_val_def parse_frac_def
        parse_tz_def is_sign_def days_in_month_def is_leap_def)
  then show ?thesis
    by (simp add: convert_to_datetime_def fromisoformat_def str_replace_def)
qed

text \<open>
  C8, as stated, fails on a valid ISO-8601 timestamp: the leap second
  \<^verbatim>\<open>2016-12-31T23:59:60Z\<close> is refused by the \<^verbatim>\<open>datetime\<close> constructor, whose seconds
  end at 59, in every interpreter.
\<close>

theorem leap_second_timestamp_fails:
  "convert_to_datetime (fromisoformat_ext example_runtime) (JStr ''2016-12-31T23:59:60Z'') =
     Inl (ValueError ''Invalid date format: '' (JStr ''2016-12-31T23:59:60Z''))"
  by (rule leap_second_rejected)

text \<open>
  C8, amended. Every timestamp \<^verbatim>\<open>YYYY-MM-DDTHH:MM:SS\<close>, with an optional fraction of
  three or six digits and the zone \<^verbatim>\<open>Z\<close> or \<^verbatim>\<open>+HH:MM\<close> or \<^verbatim>\<open>-HH:MM\<close>, whose fields are
  in the ranges of a datetime, is parsed by the validator to the aware datetime with
  these fields and this offset (\<^verbatim>\<open>Z\<close> being \<^verbatim>\<open>+00:00\<close>); serialising that datetime with
  \<^verbatim>\<open>isoformat\<close> and validating the text again gives the same datetime, hence the same
  instant. For every string that \<^verbatim>\<open>fromisoformat\<close> refuses, the validator raises the
  \<^verbatim>\<open>ValueError\<close> whose message ends with the raw string.
\<close>

theorem timestamp_round_trip:
  assumes "iso_valid t"
  shows "convert_to_datetime ext (JStr (iso_text t)) = Inr (iso_value t) \<and>
         valid_datetime (iso_value t) \<and>
         utcoffset (iso_value t) = Some (zone_offset (iso_zone t)) \<and>
         convert_to_datetime ext (JStr (isoformat (iso_value t))) = Inr (iso_value t) \<and>
         (\<forall>s. fromisoformat ext (str_replace CHR ''Z'' ''+00:00'' s) = None \<longrightarrow>
              convert_to_datetime ext (JStr s) =
                Inl (ValueError ''Invalid date format: '' (JStr s)))"
proof (intro conjI allI impI)
  show "convert_to_datetime ext (JStr (iso_text t)) = Inr (iso_value t)"
    by (rule convert_iso_text[OF assms])
  show "valid_datetime (iso_value t)"
    by (rule valid_iso_value[OF assms])
  show "utcoffset (iso_value t) = Some (zone_offset (iso_zone t))"
    by (simp add: iso_value_def)
  from isoformat_iso_value[OF assms] obtain t' where
    "iso_valid t'" "iso_value t' = iso_value t" "isoformat (iso_value t) = iso_text t'"
    by blast
  then show "convert_to_datetime ext (JStr (isoformat (iso_value t))) = Inr (iso_value t)"
    using convert_iso_text[of t' ext] by simp
next
  fix s
  assume "fromisoformat ext (str_replace CHR ''Z'' ''+00:00'' s) = None"
  then show "convert_to_datetime ext (JStr s) = Inl (ValueError ''Invalid date format: '' (JStr s))"
    by (simp add: convert_to_datetime_def)
qed

lemma validate_datetime_unparsable:
  "fromisoformat ext (str_replace CHR ''Z'' ''+00:00'' s) = None \<Longrightarrow>
   validate_datetime ext name (Some (JStr s)) =
     Invalid [([name], ValueErrorLine (''Invalid date format: '' @ s))]"
  by (simp add: validate_datetime_def convert_to_datetime_def)

theorem timestamp_round_trip_witness:
  "iso_valid example_timestamp \<and>
   iso_text example_timestamp = ''2024-01-01T00:00:00Z'' \<and>
   convert_to_datetime (fromisoformat_ext example_runtime) (JStr ''2024-01-01T00:00:00Z'') =
     Inr example_created \<and>
   isoformat example_created = ''2024-01-01T00:00:00+00:00'' \<and>
   convert_to_datetime (fromisoformat_ext example_runtime) (JStr ''2024-01-01T00:00:00+00:00'') =
     Inr example_created \<and>
   convert_to_datetime (fromisoformat_ext example_runtime) (JStr ''yesterday'') =
     Inl (ValueError ''Invalid date format: '' (JStr ''yesterday''))"
proof -
  have v: "iso_valid example_timestamp"
    by (simp add: iso_valid_def example_timestamp_def days_in_month_def)
  have t: "iso_text example_timestamp = ''2024-01-01T00:00:00Z''"
    by (simp add: iso_text_def example_timestamp_def digits4_def digits2_def digit_char_def
        char_of_digits)
  have x: "iso_value example_timestamp = example_created"
    by (simp add: iso_value_def example_timestamp_def example_created_def)
  have i: "isoformat example_created = ''2024-01-01T00:00:00+00:00''"
    by (simp add: isoformat_def example_created_def format_offset_def digits4_def digits2_def
        digit_char_def char_of_digits)
  have n: "fromisoformat (fromisoformat_ext example_runtime)
             (str_replace CHR ''Z'' ''+00:00'' ''yesterday'') = None"
    by (simp add: fromisoformat_def parse_core_def str_replace_def example_runtime_def)
  note r = timestamp_round_trip[OF v, of "fromisoformat_ext example_runtime"]
  show ?thesis
    using v t i r[THEN conjunct1]
          r[THEN conjunct2, THEN conjunct2, THEN conjunct2, THEN conjunct1]
          r[THEN conjunct2, THEN conjunct2, THEN conjunct2, THEN conjunct2, rule_format, OF n]
    by (simp add: t x i)
qed

end
